theory Spec2Isabelle
  imports Complex_Main "HOL-Library.Log_Nat"
begin

section \<open>Python values\<close>

text \<open>
  A Python \<^verbatim>\<open>str\<close> is a sequence of Unicode code points, so it is modelled as a list of
  natural numbers. ASCII literals of the source are written \<open>asc ''...''\<close>; the Japanese
  literals are written as their code points, with a transliteration beside them.
\<close>

type_synonym ustr = "nat list"

definition asc :: "string \<Rightarrow> ustr" where
  "asc s = map of_char s"

section \<open>The schedule store and the judgment log (app.py)\<close>

text \<open>
  \<^verbatim>\<open>reservations_db\<close> is a dict from a date string to a list of slot dicts. The slot dicts
  are written by several handlers with different key sets and are read with
  \<^verbatim>\<open>existing.get(key)\<close>, which yields \<^verbatim>\<open>None\<close> for an absent key: every key is an
  optional field.
\<close>

record slot =
  s_type :: "ustr option"
  s_start :: "ustr option"
  s_end :: "ustr option"
  s_source :: "ustr option"
  s_sender :: "ustr option"
  s_email_subject :: "ustr option"
  s_message_id :: "ustr option"
  s_customer_name :: "ustr option"
  s_confidence :: "rat option"
  s_group :: "nat option"
  s_status :: "ustr option"

type_synonym store = "ustr \<rightharpoonup> slot list"

definition empty_slot :: slot where
  "empty_slot = \<lparr>s_type = None, s_start = None, s_end = None, s_source = None,
     s_sender = None, s_email_subject = None, s_message_id = None,
     s_customer_name = None, s_confidence = None, s_group = None, s_status = None\<rparr>"

text \<open>
  The entries of \<^verbatim>\<open>reservation_judgment_logs\<close> are formatted strings. An entry is modelled
  by the values the f-string interpolates (the timestamp first), one constructor per
  format used in app.py.
\<close>

datatype emoji = Calendar | Cross | Question

datatype log_entry =
    Judgment ustr emoji ustr ustr ustr ustr rat
  | Manual ustr ustr
  | Clear ustr nat
  | Export ustr

text \<open>\<^verbatim>\<open>log_reservation_judgment\<close> (app.py 81-94); \<open>now\<close> is the formatted clock reading.\<close>

definition action_emoji :: "ustr \<Rightarrow> emoji" where
  "action_emoji action_type =
     (if action_type = asc ''booking'' then Calendar
      else if action_type = asc ''cancellation'' then Cross else Question)"

definition log_reservation_judgment ::
  "ustr \<Rightarrow> ustr \<Rightarrow> ustr \<Rightarrow> ustr \<Rightarrow> ustr \<Rightarrow> rat \<Rightarrow> log_entry list \<Rightarrow> log_entry list" where
  "log_reservation_judgment now action_type date time_slot customer_name confidence logs =
     (let log_entry = Judgment now (action_emoji action_type) action_type customer_name
                        date time_slot confidence;
          logs1 = logs @ [log_entry]
      in if length logs1 > 200 then tl logs1 else logs1)"

text \<open>
  The log routes (app.py 632-698). Each answers 401 and changes nothing unless the
  session is logged in; \<^verbatim>\<open>add_log\<close> answers 400 on a message that is empty after
  \<^verbatim>\<open>strip()\<close>, so \<open>message\<close> here is the stripped text.
\<close>

definition add_log :: "bool \<Rightarrow> ustr \<Rightarrow> ustr \<Rightarrow> log_entry list \<Rightarrow> log_entry list" where
  "add_log logged_in now message logs =
     (if \<not> logged_in then logs
      else if message = [] then logs
      else (let logs1 = logs @ [Manual now message]
            in if length logs1 > 200 then tl logs1 else logs1))"

definition clear_logs :: "bool \<Rightarrow> ustr \<Rightarrow> log_entry list \<Rightarrow> log_entry list" where
  "clear_logs logged_in now logs =
     (if \<not> logged_in then logs else [Clear now (length logs)])"

definition export_logs :: "bool \<Rightarrow> ustr \<Rightarrow> log_entry list \<Rightarrow> log_entry list" where
  "export_logs logged_in now logs =
     (if \<not> logged_in then logs else logs @ [Export now])"

subsection \<open>The merge loops\<close>

text \<open>
  The handlers do not return a value per event: they set the flags \<^verbatim>\<open>duplicate\<close> and
  \<^verbatim>\<open>removed\<close> and bump \<^verbatim>\<open>added_count\<close> and \<^verbatim>\<open>cancelled_count\<close>. The model of one loop
  iteration names the branch it took as its outcome: \<^verbatim>\<open>added_count\<close> is bumped on Added
  and \<^verbatim>\<open>cancelled_count\<close> on Cancelled.
\<close>

datatype outcome = Added | Cancelled | Skipped_Duplicate | Cancel_Not_Found | No_Action

text \<open>
  \<^verbatim>\<open>for i, existing in enumerate(xs): if P(existing): xs.pop(i); removed = True; break\<close>:
  the list without its first element satisfying \<open>P\<close>, and the flag.
\<close>

fun pop_first :: "('a \<Rightarrow> bool) \<Rightarrow> 'a list \<Rightarrow> 'a list \<times> bool" where
  "pop_first P [] = ([], False)"
| "pop_first P (x # xs) =
     (if P x then (xs, True)
      else (let (ys, removed) = pop_first P xs in (x # ys, removed)))"

text \<open>\<^verbatim>\<open>if date not in reservations_db: reservations_db[date] = []\<close>\<close>

definition ensure_date :: "store \<Rightarrow> ustr \<Rightarrow> store" where
  "ensure_date db date = (if date \<in> dom db then db else db(date \<mapsto> []))"

definition slots_on :: "store \<Rightarrow> ustr \<Rightarrow> slot list" where
  "slots_on db date = (case db date of None \<Rightarrow> [] | Some xs \<Rightarrow> xs)"

text \<open>
  The state the Gmail sync loop works on: the store and the judgment log.
  (\<^verbatim>\<open>activity_logs\<close>, which the merge never reads, is left out.)
\<close>

record app_state =
  reservations_db :: store
  reservation_judgment_logs :: "log_entry list"

text \<open>
  An element of \<^verbatim>\<open>new_reservations\<close> in \<^verbatim>\<open>sync_gmail_reservations\<close>. The keys read with
  \<^verbatim>\<open>reservation[...]\<close> are fields; those read with \<^verbatim>\<open>.get\<close> are optional.
\<close>

record gmail_reservation =
  r_date :: ustr
  r_start :: ustr
  r_end :: ustr
  r_source :: ustr
  r_customer_name :: "ustr option"
  r_action_type :: "ustr option"
  r_confidence :: "rat option"
  r_sender :: "ustr option"
  r_email_subject :: "ustr option"
  r_message_id :: "ustr option"

definition get_or :: "'a option \<Rightarrow> 'a \<Rightarrow> 'a" where
  "get_or v d = (case v of None \<Rightarrow> d | Some x \<Rightarrow> x)"

definition gmail_match :: "ustr \<Rightarrow> ustr \<Rightarrow> slot \<Rightarrow> bool" where
  "gmail_match start_time customer_name existing =
     (s_start existing = Some start_time \<and> s_customer_name existing = Some customer_name)"

definition gmail_slot :: "gmail_reservation \<Rightarrow> slot" where
  "gmail_slot r =
     \<lparr>s_type = Some (asc ''gmail''), s_start = Some (r_start r), s_end = Some (r_end r),
      s_source = Some (r_source r),
      s_sender = Some (get_or (r_sender r) (asc ''N/A'')),
      s_email_subject = Some (get_or (r_email_subject r) (asc ''N/A'')),
      s_message_id = Some (get_or (r_message_id r) (asc ''N/A'')),
      s_customer_name = Some (get_or (r_customer_name r) (asc ''N/A'')),
      s_confidence = Some (get_or (r_confidence r) 1),
      s_group = Some 1, s_status = None\<rparr>"

text \<open>One iteration of the loop of \<^verbatim>\<open>sync_gmail_reservations\<close> (app.py 409-461).\<close>

definition sync_gmail_step :: "ustr \<Rightarrow> app_state \<Rightarrow> gmail_reservation \<Rightarrow> app_state \<times> outcome" where
  "sync_gmail_step now st reservation =
     (let date = r_date reservation;
          start_time = r_start reservation;
          end_time = r_end reservation;
          customer_name = get_or (r_customer_name reservation) (asc ''N/A'');
          action_type = get_or (r_action_type reservation) (asc ''booking'');
          confidence = get_or (r_confidence reservation) 1;
          db = ensure_date (reservations_db st) date;
          logs = log_reservation_judgment now action_type date
                   (start_time @ asc ''-'' @ end_time) customer_name confidence
                   (reservation_judgment_logs st);
          st1 = \<lparr>reservations_db = db, reservation_judgment_logs = logs\<rparr>
      in if action_type = asc ''cancellation'' then
           (let (xs, removed) = pop_first (gmail_match start_time customer_name) (slots_on db date)
            in if removed then (st1\<lparr>reservations_db := db(date \<mapsto> xs)\<rparr>, Cancelled)
               else (st1, Cancel_Not_Found))
         else if action_type = asc ''booking'' then
           (let duplicate = list_ex (gmail_match start_time customer_name) (slots_on db date)
            in if \<not> duplicate
               then (st1\<lparr>reservations_db := db(date \<mapsto> slots_on db date @ [gmail_slot reservation])\<rparr>,
                     Added)
               else (st1, Skipped_Duplicate))
         else (st1, No_Action))"

text \<open>
  An element of \<^verbatim>\<open>data['reservations']\<close> in \<^verbatim>\<open>gas_webhook\<close> (app.py 327-363). The
  handler indexes \<^verbatim>\<open>date\<close>, \<^verbatim>\<open>start\<close>, \<^verbatim>\<open>end\<close> and \<^verbatim>\<open>type\<close>; \<^verbatim>\<open>customer_name\<close> and
  \<^verbatim>\<open>is_cancellation\<close> are read with \<^verbatim>\<open>.get\<close> (the latter for its truth value).
\<close>

record gas_reservation =
  g_date :: ustr
  g_start :: ustr
  g_end :: ustr
  g_type :: ustr
  g_customer_name :: "ustr option"
  g_is_cancellation :: bool

definition gas_cancel_match :: "gas_reservation \<Rightarrow> slot \<Rightarrow> bool" where
  "gas_cancel_match reservation existing =
     (s_start existing = Some (g_start reservation) \<and> s_type existing = Some (g_type reservation))"

definition gas_duplicate_match :: "gas_reservation \<Rightarrow> slot \<Rightarrow> bool" where
  "gas_duplicate_match reservation existing =
     (s_start existing = Some (g_start reservation) \<and>
      s_end existing = Some (g_end reservation) \<and>
      s_customer_name existing = g_customer_name reservation)"

definition gas_slot :: "gas_reservation \<Rightarrow> slot" where
  "gas_slot reservation =
     empty_slot\<lparr>s_start := Some (g_start reservation), s_end := Some (g_end reservation),
       s_customer_name := Some (get_or (g_customer_name reservation) (asc ''N/A'')),
       s_type := Some (asc ''gmail''), s_source := Some (asc ''gas'')\<rparr>"

definition gas_webhook_step :: "store \<Rightarrow> gas_reservation \<Rightarrow> store \<times> outcome" where
  "gas_webhook_step db0 reservation =
     (let date = g_date reservation;
          db = ensure_date db0 date
      in if g_is_cancellation reservation then
           (let (xs, removed) = pop_first (gas_cancel_match reservation) (slots_on db date)
            in if removed then (db(date \<mapsto> xs), Cancelled) else (db, Cancel_Not_Found))
         else
           (let duplicate = list_ex (gas_duplicate_match reservation) (slots_on db date)
            in if \<not> duplicate
               then (db(date \<mapsto> slots_on db date @ [gas_slot reservation]), Added)
               else (db, Skipped_Duplicate)))"

text \<open>
  An element of \<^verbatim>\<open>new_reservations\<close> in \<^verbatim>\<open>sync_hacomono_reservations\<close> (app.py 538-565)
  and one iteration of its loop.
\<close>

record hacomono_reservation =
  h_date :: ustr
  h_start :: ustr
  h_end :: ustr
  h_type :: ustr
  h_source :: ustr
  h_customer_name :: "ustr option"
  h_status :: "ustr option"

definition hacomono_match :: "hacomono_reservation \<Rightarrow> slot \<Rightarrow> bool" where
  "hacomono_match reservation existing =
     (s_start existing = Some (h_start reservation) \<and> s_source existing = Some (h_source reservation))"

text \<open>\<^verbatim>\<open>r.get('start') == reservation['start']\<close>, the filter of the group count.\<close>

definition same_start :: "ustr \<Rightarrow> slot \<Rightarrow> bool" where
  "same_start start_time r = (s_start r = Some start_time)"

definition hacomono_slot :: "slot list \<Rightarrow> hacomono_reservation \<Rightarrow> slot" where
  "hacomono_slot existing_slots reservation =
     empty_slot\<lparr>s_type := Some (h_type reservation), s_start := Some (h_start reservation),
       s_end := Some (h_end reservation), s_source := Some (h_source reservation),
       s_customer_name := Some (get_or (h_customer_name reservation) (asc ''N/A'')),
       s_status := Some (get_or (h_status reservation) (asc ''N/A'')),
       s_group := Some (length (filter (same_start (h_start reservation)) existing_slots) + 1)\<rparr>"

definition sync_hacomono_step :: "store \<Rightarrow> hacomono_reservation \<Rightarrow> store \<times> outcome" where
  "sync_hacomono_step db0 reservation =
     (let date = h_date reservation;
          db = ensure_date db0 date;
          duplicate = list_ex (hacomono_match reservation) (slots_on db date)
      in if \<not> duplicate
         then (db(date \<mapsto> slots_on db date @ [hacomono_slot (slots_on db date) reservation]), Added)
         else (db, Skipped_Duplicate))"

text \<open>\<^verbatim>\<open>reservations_db = {}\<close> (app.py 105)\<close>

definition initial_db :: store where
  "initial_db = Map.empty"

section \<open>Strings (Python \<^verbatim>\<open>str\<close> methods)\<close>

text \<open>
  \<^verbatim>\<open>str.lower()\<close>, and which code points \<^verbatim>\<open>\d\<close> and \<^verbatim>\<open>int()\<close> take as decimal digits
  (with their values), come from the Unicode tables of the Python build. They are
  parameters of the model: every function that lower-cases or reads digits takes the
  tables \<open>U\<close>. \<open>basic_latin\<close> is their restriction to ASCII, which agrees with Python on
  every text made of ASCII and Japanese script.
\<close>

record unicode =
  u_lower :: "ustr \<Rightarrow> ustr"
  u_decimal :: "nat \<Rightarrow> nat option"

definition basic_latin :: unicode where
  "basic_latin =
     \<lparr>u_lower = map (\<lambda>c. if 0x41 \<le> c \<and> c \<le> 0x5A then c + 0x20 else c),
      u_decimal = (\<lambda>c. if 0x30 \<le> c \<and> c \<le> 0x39 then Some (c - 0x30) else None)\<rparr>"

text \<open>\<^verbatim>\<open>str.isspace()\<close> of one code point, which is also the class \<^verbatim>\<open>\s\<close> of \<^verbatim>\<open>re\<close>.\<close>

definition isspace :: "nat \<Rightarrow> bool" where
  "isspace c = (c \<in> set [0x9, 0xA, 0xB, 0xC, 0xD, 0x1C, 0x1D, 0x1E, 0x1F, 0x20, 0x85, 0xA0,
      0x1680, 0x2000, 0x2001, 0x2002, 0x2003, 0x2004, 0x2005, 0x2006, 0x2007, 0x2008, 0x2009,
      0x200A, 0x2028, 0x2029, 0x202F, 0x205F, 0x3000])"

definition isd :: "unicode \<Rightarrow> nat \<Rightarrow> bool" where
  "isd U c = (u_decimal U c \<noteq> None)"

text \<open>\<^verbatim>\<open>s.startswith(w)\<close> and \<^verbatim>\<open>w in s\<close>.\<close>

fun starts :: "ustr \<Rightarrow> ustr \<Rightarrow> bool" where
  "starts [] s = True"
| "starts (w # ws) [] = False"
| "starts (w # ws) (c # cs) = (w = c \<and> starts ws cs)"

fun subs :: "ustr \<Rightarrow> ustr \<Rightarrow> bool" where
  "subs w [] = (w = [])"
| "subs w (c # cs) = (starts w (c # cs) \<or> subs w cs)"

definition strip :: "ustr \<Rightarrow> ustr" where
  "strip s = rev (dropWhile isspace (rev (dropWhile isspace s)))"

text \<open>
  \<^verbatim>\<open>s.zfill(w)\<close> (the zeros go after a leading sign) and \<^verbatim>\<open>s.split(sep)\<close> for a
  one-character separator.
\<close>

definition zfill :: "nat \<Rightarrow> ustr \<Rightarrow> ustr" where
  "zfill w s =
     (case s of
        [] \<Rightarrow> replicate w 0x30
      | c # cs \<Rightarrow>
          if c = 0x2B \<or> c = 0x2D then c # replicate (w - length s) 0x30 @ cs
          else replicate (w - length s) 0x30 @ s)"

fun split_on :: "nat \<Rightarrow> ustr \<Rightarrow> ustr list" where
  "split_on sep [] = [[]]"
| "split_on sep (c # cs) =
     (if c = sep then [] # split_on sep cs
      else (case split_on sep cs of [] \<Rightarrow> [[c]] | p # ps \<Rightarrow> (c # p) # ps))"

text \<open>
  The exceptions a parse can raise, and \<^verbatim>\<open>int(s)\<close> on a string of decimal digits (the
  source calls it on groups matched by \<^verbatim>\<open>\d\<close> and on their zero-filled copies); anything
  else in the string is a \<^verbatim>\<open>ValueError\<close>. \<^verbatim>\<open>xs[i]\<close> raises \<^verbatim>\<open>IndexError\<close> out of range.
\<close>

datatype exn = ValueError | IndexError

fun digits_value :: "unicode \<Rightarrow> nat \<Rightarrow> ustr \<Rightarrow> exn + nat" where
  "digits_value U acc [] = Inr acc"
| "digits_value U acc (c # cs) =
     (case u_decimal U c of
        None \<Rightarrow> Inl ValueError
      | Some d \<Rightarrow> digits_value U (10 * acc + d) cs)"

definition py_int :: "unicode \<Rightarrow> ustr \<Rightarrow> exn + nat" where
  "py_int U s = (if s = [] then Inl ValueError else digits_value U 0 s)"

text \<open>The ASCII digits are decimal digits with their usual values, as in every Unicode table.\<close>

definition ascii_digits :: "unicode \<Rightarrow> bool" where
  "ascii_digits U = (\<forall>d<10. u_decimal U (0x30 + d) = Some d)"

definition item :: "'a list \<Rightarrow> nat \<Rightarrow> exn + 'a" where
  "item xs i = (if i < length xs then Inr (xs ! i) else Inl IndexError)"

text \<open>\<^verbatim>\<open>str(n)\<close> and the format \<^verbatim>\<open>f"{n:0wd}"\<close> of a non-negative integer.\<close>

fun dec :: "nat \<Rightarrow> ustr" where
  "dec n = (if n < 10 then [0x30 + n] else dec (n div 10) @ [0x30 + n mod 10])"

declare dec.simps [simp del]

definition fmt0 :: "nat \<Rightarrow> nat \<Rightarrow> ustr" where
  "fmt0 w n = replicate (w - length (dec n)) 0x30 @ dec n"

section \<open>Regular expressions (Python \<^verbatim>\<open>re\<close>)\<close>

text \<open>
  The patterns of the source use literals, character classes, quantifiers applied to a
  single character class, alternation, capture groups and the multi-line anchor \<^verbatim>\<open>^\<close>.
  \<open>ms r st\<close> lists, in the order a backtracking matcher tries them, the states in which a
  match of \<open>r\<close> from \<open>st\<close> can end; the head of the list is the match \<^verbatim>\<open>re\<close> reports.
  A state is the code point before the position (for \<^verbatim>\<open>^\<close>), the text still to read
  and the groups captured so far, the latest first.
\<close>

datatype rx =
    Lit ustr
  | One "nat \<Rightarrow> bool"
  | Rep bool nat "nat option" "nat \<Rightarrow> bool"
  | Seq rx rx
  | Alt rx rx
  | Grp nat rx
  | Bol

type_synonym caps = "(nat \<times> ustr) list"
type_synonym mstate = "nat option \<times> ustr \<times> caps"

fun ms :: "rx \<Rightarrow> mstate \<Rightarrow> mstate list" where
  "ms (Lit w) (p, s, g) =
     (if starts w s then [(if w = [] then p else Some (last w), drop (length w) s, g)] else [])"
| "ms (One P) (p, s, g) =
     (case s of [] \<Rightarrow> [] | c # cs \<Rightarrow> if P c then [(Some c, cs, g)] else [])"
| "ms (Rep greedy lo hi P) (p, s, g) =
     (let n = length (takeWhile P s);
          m = (case hi of None \<Rightarrow> n | Some h \<Rightarrow> min h n);
          ks = [lo ..< Suc m]
      in map (\<lambda>k. (if k = 0 then p else Some (s ! (k - 1)), drop k s, g))
           (if greedy then rev ks else ks))"
| "ms (Seq a b) st = concat (map (ms b) (ms a st))"
| "ms (Alt a b) st = ms a st @ ms b st"
| "ms (Grp n r) (p, s, g) =
     map (\<lambda>(p', s', g'). (p', s', (n, take (length s - length s') s) # g')) (ms r (p, s, g))"
| "ms Bol (p, s, g) = (if p = None \<or> p = Some 0xA then [(p, s, g)] else [])"

definition seq :: "rx list \<Rightarrow> rx" where
  "seq rs = foldr Seq rs (Lit [])"

text \<open>\<^verbatim>\<open>re.search\<close>: the first match at the leftmost position that has one.\<close>

fun search_from :: "rx \<Rightarrow> nat option \<Rightarrow> ustr \<Rightarrow> caps option" where
  "search_from r p [] = (case ms r (p, [], []) of [] \<Rightarrow> None | (_, _, g) # _ \<Rightarrow> Some g)"
| "search_from r p (c # cs) =
     (case ms r (p, c # cs, []) of
        [] \<Rightarrow> search_from r (Some c) cs
      | (_, _, g) # _ \<Rightarrow> Some g)"

definition search :: "rx \<Rightarrow> ustr \<Rightarrow> caps option" where
  "search r s = search_from r None s"

text \<open>
  \<^verbatim>\<open>m.group(n)\<close>; every group of the source's patterns takes part in every match, so the
  empty default is never read.
\<close>

definition mgroup :: "caps \<Rightarrow> nat \<Rightarrow> ustr" where
  "mgroup g n = (case map_of g n of None \<Rightarrow> [] | Some t \<Rightarrow> t)"

text \<open>
  \<^verbatim>\<open>re.findall\<close>: the matches from left to right, each search resuming where the last
  match ended (\<open>k\<close> counts the code points still covered by it).
\<close>

fun findall_from :: "rx \<Rightarrow> nat \<Rightarrow> nat option \<Rightarrow> ustr \<Rightarrow> caps list" where
  "findall_from r k p [] =
     (if k = 0 then (case ms r (p, [], []) of [] \<Rightarrow> [] | (_, _, g) # _ \<Rightarrow> [g]) else [])"
| "findall_from r k p (c # cs) =
     (if k > 0 then findall_from r (k - 1) (Some c) cs
      else (case ms r (p, c # cs, []) of
              [] \<Rightarrow> findall_from r 0 (Some c) cs
            | (_, s', g) # _ \<Rightarrow> g # findall_from r (length cs - length s') (Some c) cs))"

definition findall :: "rx \<Rightarrow> ustr \<Rightarrow> caps list" where
  "findall r s = findall_from r 0 None s"

text \<open>\<^verbatim>\<open>\d{lo,hi}\<close>\<close>

definition digits :: "unicode \<Rightarrow> nat \<Rightarrow> nat \<Rightarrow> rx" where
  "digits U lo hi = Rep True lo (Some hi) (isd U)"

section \<open>Floating point\<close>

text \<open>
  A Python \<^verbatim>\<open>float\<close> is an IEEE 754 double. A finite double is modelled by the rational
  it denotes; \<open>rnd\<close> rounds a rational to the nearest double, ties to the even
  significand (53 bits, exponent floor \<open>-1022\<close>; overflow to infinity is out of the
  range of every value here). A literal denotes \<open>rnd\<close> of its decimal value and \<^verbatim>\<open>a + b\<close>
  denotes \<open>rnd (a + b)\<close>.
\<close>

definition pow2 :: "int \<Rightarrow> rat" where
  "pow2 k = (if 0 \<le> k then 2 ^ nat k else 1 / 2 ^ nat (- k))"

definition binade :: "rat \<Rightarrow> int" where
  "binade x =
     (let (p, q) = quotient_of x;
          e = bitlen p - bitlen q
      in if pow2 e \<le> x then e else e - 1)"

definition round_half_even :: "rat \<Rightarrow> int" where
  "round_half_even q =
     (let f = \<lfloor>q\<rfloor>; r = q - of_int f
      in if r < 1 / 2 then f else if 1 / 2 < r then f + 1 else if even f then f else f + 1)"

definition rnd :: "rat \<Rightarrow> rat" where
  "rnd x =
     (if x = 0 then 0
      else (let a = \<bar>x\<bar>;
                u = pow2 (max (binade a) (- 1022) - 52)
            in sgn x * of_int (round_half_even (a / u)) * u))"

definition flt :: "rat \<Rightarrow> rat" where
  "flt d = rnd d"

definition fadd :: "rat \<Rightarrow> rat \<Rightarrow> rat" where
  "fadd a b = rnd (a + b)"

section \<open>The classifier (reservation\_classifier.py)\<close>

text \<open>
  \<^verbatim>\<open>action_type\<close> is \<^verbatim>\<open>'booking'\<close> or \<^verbatim>\<open>'cancellation'\<close>; \<^verbatim>\<open>_determine_action_type\<close>
  returns no other string. The methods of \<^verbatim>\<open>HALLELReservationClassifier\<close> keep their
  names without the leading underscore.
\<close>

datatype action = Booking | Cancellation

definition action_str :: "action \<Rightarrow> ustr" where
  "action_str a = (case a of Booking \<Rightarrow> asc ''booking'' | Cancellation \<Rightarrow> asc ''cancellation'')"

record reservation_info =
  ri_action_type :: action
  ri_date :: ustr
  ri_start_time :: ustr
  ri_end_time :: ustr
  ri_customer_name :: ustr
  ri_studio :: ustr
  ri_duration_minutes :: int
  ri_confidence :: rat
  ri_raw_text :: ustr

text \<open>
  The keyword lists of \<^verbatim>\<open>__init__\<close>. Booking: "go-yoyaku arigatou gozaimasu",
  "ika no naiyou wo uketamawarimashita", "go-kakunin kudasai", "yoyaku ga kanryou",
  "uketamawarimashita". Cancellation: "kyanseru itashimashita", "yoyaku wo kyanseru",
  "kyanseru shimashita", "torikeshi", "kyanseru kanryou".
\<close>

definition booking_keywords :: "ustr list" where
  "booking_keywords =
     [[0x3054, 0x4E88, 0x7D04, 0x3042, 0x308A, 0x304C, 0x3068, 0x3046, 0x3054, 0x3056, 0x3044,
       0x307E, 0x3059],
      [0x4EE5, 0x4E0B, 0x306E, 0x5185, 0x5BB9, 0x3092, 0x627F, 0x308A, 0x307E, 0x3057, 0x305F],
      [0x3054, 0x78BA, 0x8A8D, 0x304F, 0x3060, 0x3055, 0x3044],
      [0x4E88, 0x7D04, 0x304C, 0x5B8C, 0x4E86],
      [0x627F, 0x308A, 0x307E, 0x3057, 0x305F]]"

definition cancellation_keywords :: "ustr list" where
  "cancellation_keywords =
     [[0x30AD, 0x30E3, 0x30F3, 0x30BB, 0x30EB, 0x3044, 0x305F, 0x3057, 0x307E, 0x3057, 0x305F],
      [0x4E88, 0x7D04, 0x3092, 0x30AD, 0x30E3, 0x30F3, 0x30BB, 0x30EB],
      [0x30AD, 0x30E3, 0x30F3, 0x30BB, 0x30EB, 0x3057, 0x307E, 0x3057, 0x305F],
      [0x53D6, 0x308A, 0x6D88, 0x3057],
      [0x30AD, 0x30E3, 0x30F3, 0x30BB, 0x30EB, 0x5B8C, 0x4E86]]"

text \<open>
  Other literals: "Hanzomon-ten" and "Shibuya-ten" (the two stores), "Shibuya",
  "kyanseru" (cancel), "yoyaku" (booking), "arigatou", "uketamawari", "fumei" (unknown),
  and the characters for year, month, day and the honorific "sama".
\<close>

definition hanzomon_ten :: ustr where "hanzomon_ten = [0x534A, 0x8535, 0x9580, 0x5E97]"
definition shibuya_ten :: ustr where "shibuya_ten = [0x6E0B, 0x8C37, 0x5E97]"
definition shibuya :: ustr where "shibuya = [0x6E0B, 0x8C37]"
definition kyanseru :: ustr where "kyanseru = [0x30AD, 0x30E3, 0x30F3, 0x30BB, 0x30EB]"
definition yoyaku :: ustr where "yoyaku = [0x4E88, 0x7D04]"
definition arigatou :: ustr where "arigatou = [0x3042, 0x308A, 0x304C, 0x3068, 0x3046]"
definition uketamawari :: ustr where "uketamawari = [0x627F, 0x308A]"
definition fumei :: ustr where "fumei = [0x4E0D, 0x660E]"
definition nen :: ustr where "nen = [0x5E74]"
definition gatsu :: ustr where "gatsu = [0x6708]"
definition nichi :: ustr where "nichi = [0x65E5]"
definition sama :: ustr where "sama = [0x69D8]"

text \<open>
  \<^verbatim>\<open>date_pattern = r'(\d{4}){nen}(\d{1,2}){gatsu}(\d{1,2}){nichi}'\<close>,
  \<^verbatim>\<open>time_pattern = r'(\d{1,2}):(\d{2})~(\d{1,2}):(\d{2})'\<close>,
  \<^verbatim>\<open>customer_pattern = r'(.*?)\s*{sama}'\<close> (a name in braces stands for the
  characters defined above under that name).
\<close>

definition date_pattern :: "unicode \<Rightarrow> rx" where
  "date_pattern U = seq [Grp 1 (digits U 4 4), Lit nen, Grp 2 (digits U 1 2), Lit gatsu,
                         Grp 3 (digits U 1 2), Lit nichi]"

definition time_pattern :: "unicode \<Rightarrow> rx" where
  "time_pattern U = seq [Grp 1 (digits U 1 2), Lit (asc '':''), Grp 2 (digits U 2 2),
                         Lit (asc ''~''), Grp 3 (digits U 1 2), Lit (asc '':''),
                         Grp 4 (digits U 2 2)]"

definition customer_pattern :: rx where
  "customer_pattern = seq [Grp 1 (Rep False 0 None (\<lambda>c. c \<noteq> 0xA)), Rep True 0 None isspace,
                           Lit sama]"

definition is_hallel_email :: "unicode \<Rightarrow> ustr \<Rightarrow> ustr \<Rightarrow> bool" where
  "is_hallel_email U subject body =
     (let hallel_indicators = [asc ''HALLEL'', asc ''hallel''];
          combined_text = u_lower U (subject @ asc '' '' @ body);
          is_hallel = list_ex (\<lambda>indicator. subs (u_lower U indicator) combined_text)
                        hallel_indicators
      in if \<not> is_hallel then False
         else if subs hanzomon_ten body \<or> subs (asc ''hanzomon'') (u_lower U body) then False
         else if subs shibuya_ten body \<or> subs (asc ''shibuya'') (u_lower U body) then True
         else False)"

definition determine_action_type :: "unicode \<Rightarrow> ustr \<Rightarrow> action option" where
  "determine_action_type U body =
     (let body_lower = u_lower U body
      in if list_ex (\<lambda>keyword. subs keyword body) cancellation_keywords then Some Cancellation
         else if list_ex (\<lambda>keyword. subs keyword body) booking_keywords then Some Booking
         else if subs kyanseru body \<or> subs (asc ''cancel'') body_lower then Some Cancellation
         else if subs yoyaku body \<and> (subs arigatou body \<or> subs uketamawari body)
           then Some Booking
         else None)"

definition extract_customer_name :: "ustr \<Rightarrow> ustr" where
  "extract_customer_name body =
     (case search customer_pattern body of
        Some m \<Rightarrow> strip (mgroup m 1)
      | None \<Rightarrow> fumei)"

record date_info =
  di_date :: ustr
  di_start_time :: ustr
  di_end_time :: ustr
  di_duration :: int

text \<open>Sequencing of calls that can raise: the first exception ends the computation.\<close>

definition bind :: "exn + 'a \<Rightarrow> ('a \<Rightarrow> exn + 'b) \<Rightarrow> exn + 'b" where
  "bind m f = (case m of Inl e \<Rightarrow> Inl e | Inr x \<Rightarrow> f x)"

definition extract_date_time :: "unicode \<Rightarrow> ustr \<Rightarrow> exn + date_info option" where
  "extract_date_time U body =
     (case search (date_pattern U) body of
        None \<Rightarrow> Inr None
      | Some date_match \<Rightarrow>
          bind (py_int U (mgroup date_match 1)) (\<lambda>year.
          bind (py_int U (mgroup date_match 2)) (\<lambda>month.
          bind (py_int U (mgroup date_match 3)) (\<lambda>day.
            (case search (time_pattern U) body of
               None \<Rightarrow> Inr None
             | Some time_match \<Rightarrow>
                 bind (py_int U (mgroup time_match 1)) (\<lambda>start_hour.
                 bind (py_int U (mgroup time_match 2)) (\<lambda>start_minute.
                 bind (py_int U (mgroup time_match 3)) (\<lambda>end_hour.
                 bind (py_int U (mgroup time_match 4)) (\<lambda>end_minute.
                   (let date_str = fmt0 4 year @ asc ''-'' @ fmt0 2 month @ asc ''-'' @ fmt0 2 day;
                        start_time = fmt0 2 start_hour @ asc '':'' @ fmt0 2 start_minute;
                        end_time = fmt0 2 end_hour @ asc '':'' @ fmt0 2 end_minute;
                        start_minutes = start_hour * 60 + start_minute;
                        end_minutes = end_hour * 60 + end_minute;
                        duration = int end_minutes - int start_minutes
                    in Inr (Some \<lparr>di_date = date_str, di_start_time = start_time,
                                  di_end_time = end_time, di_duration = duration\<rparr>)))))))))))"

text \<open>
  \<^verbatim>\<open>studio_pattern = r'({shibuya-ten}\s*STUDIO\s*[{circled digits}]*\s*\(\d+\))'\<close>; the class is the
  circled digits one to ten, U+2460 to U+2469.
\<close>

definition studio_pattern :: "unicode \<Rightarrow> rx" where
  "studio_pattern U =
     Grp 1 (seq [Lit shibuya_ten, Rep True 0 None isspace, Lit (asc ''STUDIO''),
                 Rep True 0 None isspace, Rep True 0 None (\<lambda>c. 0x2460 \<le> c \<and> c \<le> 0x2469),
                 Rep True 0 None isspace, Lit (asc ''(''), Rep True 1 None (isd U),
                 Lit (asc '')'')])"

definition extract_studio_info :: "unicode \<Rightarrow> ustr \<Rightarrow> ustr" where
  "extract_studio_info U body =
     (case search (studio_pattern U) body of
        Some m \<Rightarrow> strip (mgroup m 1)
      | None \<Rightarrow> if subs (asc ''STUDIO'') body then asc ''STUDIO'' else fumei)"

definition calculate_confidence :: "unicode \<Rightarrow> action \<Rightarrow> ustr \<Rightarrow> rat" where
  "calculate_confidence U action_type body =
     (let confidence = flt (5 / 10);
          confidence =
            (case action_type of
               Booking \<Rightarrow>
                 foldl (\<lambda>confidence keyword.
                          if subs keyword body then fadd confidence (flt (1 / 10)) else confidence)
                   confidence booking_keywords
             | Cancellation \<Rightarrow>
                 foldl (\<lambda>confidence keyword.
                          if subs keyword body then fadd confidence (flt (15 / 100)) else confidence)
                   confidence cancellation_keywords);
          confidence = (if search (date_pattern U) body \<noteq> None
                        then fadd confidence (flt (1 / 10)) else confidence);
          confidence = (if search (time_pattern U) body \<noteq> None
                        then fadd confidence (flt (1 / 10)) else confidence);
          confidence = (if subs (asc ''HALLEL'') body
                        then fadd confidence (flt (1 / 10)) else confidence)
      in min confidence (flt 1))"

text \<open>
  \<^verbatim>\<open>classify_email\<close>: \<^verbatim>\<open>None\<close> is \<open>None\<close>, and an exception raised inside the
  \<^verbatim>\<open>try\<close> is caught and answered with \<^verbatim>\<open>None\<close> too.
\<close>

definition classify_email :: "unicode \<Rightarrow> ustr \<Rightarrow> ustr \<Rightarrow> reservation_info option" where
  "classify_email U subject body =
     (if \<not> is_hallel_email U subject body then None
      else (case determine_action_type U body of
              None \<Rightarrow> None
            | Some action_type \<Rightarrow>
                (let customer_name = extract_customer_name body
                 in (case extract_date_time U body of
                       Inl e \<Rightarrow> None
                     | Inr None \<Rightarrow> None
                     | Inr (Some date_info) \<Rightarrow>
                         (let studio_info = extract_studio_info U body;
                              confidence = calculate_confidence U action_type body
                          in Some \<lparr>ri_action_type = action_type,
                                   ri_date = di_date date_info,
                                   ri_start_time = di_start_time date_info,
                                   ri_end_time = di_end_time date_info,
                                   ri_customer_name = customer_name,
                                   ri_studio = studio_info,
                                   ri_duration_minutes = di_duration date_info,
                                   ri_confidence = confidence,
                                   ri_raw_text = body\<rparr>)))))"

section \<open>The Gmail parser (gmail\_parser.py)\<close>

text \<open>The dict \<^verbatim>\<open>get_email_content\<close> returns.\<close>

record email_content =
  ec_subject :: ustr
  ec_sender :: ustr
  ec_body :: ustr
  ec_message_id :: ustr

text \<open>The dict \<^verbatim>\<open>fetch_and_parse_reservations\<close> builds for an accepted mail.\<close>

record reservation_data =
  rd_action_type :: ustr
  rd_date :: ustr
  rd_start :: ustr
  rd_end :: ustr
  rd_customer_name :: ustr
  rd_studio :: ustr
  rd_source :: ustr
  rd_confidence :: rat
  rd_message_id :: ustr
  rd_email_subject :: ustr

definition reservation_data_of :: "ustr \<Rightarrow> email_content \<Rightarrow> reservation_info \<Rightarrow> reservation_data" where
  "reservation_data_of message_id email_content reservation_info =
     \<lparr>rd_action_type = action_str (ri_action_type reservation_info),
      rd_date = ri_date reservation_info,
      rd_start = ri_start_time reservation_info,
      rd_end = ri_end_time reservation_info,
      rd_customer_name = ri_customer_name reservation_info,
      rd_studio = ri_studio reservation_info,
      rd_source = asc ''gmail_auto'',
      rd_confidence = ri_confidence reservation_info,
      rd_message_id = message_id,
      rd_email_subject = ec_subject email_content\<rparr>"

text \<open>
  The loop of \<^verbatim>\<open>fetch_and_parse_reservations\<close> (gmail\_parser.py 307-343) over the
  messages, each paired with what \<^verbatim>\<open>get_email_content\<close> returns for it (\<open>None\<close> when it
  fails). The result is the list \<^verbatim>\<open>reservations\<close> and the calls of
  \<^verbatim>\<open>labeler.label_processed_reservation\<close> (message id, action, customer name), which are
  made only when a labeler was set up.
\<close>

type_synonym label_call = "ustr \<times> action \<times> ustr"

fun fetch_loop ::
  "unicode \<Rightarrow> bool \<Rightarrow> (ustr \<times> email_content option) list \<Rightarrow> reservation_data list \<times> label_call list" where
  "fetch_loop U labeler [] = ([], [])"
| "fetch_loop U labeler ((message_id, content) # messages) =
     (let (reservations, labels) = fetch_loop U labeler messages
      in (case content of
            None \<Rightarrow> (reservations, labels)
          | Some email_content \<Rightarrow>
              (case classify_email U (ec_subject email_content) (ec_body email_content) of
                 None \<Rightarrow> (reservations, labels)
               | Some reservation_info \<Rightarrow>
                   if ri_confidence reservation_info > flt (7 / 10)
                   then (reservation_data_of message_id email_content reservation_info # reservations,
                         (if labeler
                          then (message_id, ri_action_type reservation_info,
                                ri_customer_name reservation_info) # labels
                          else labels))
                   else (reservations, labels))))"

definition fetch_and_parse_reservations ::
  "unicode \<Rightarrow> bool \<Rightarrow> (ustr \<times> email_content option) list \<Rightarrow> reservation_data list \<times> label_call list" where
  "fetch_and_parse_reservations U labeler messages = fetch_loop U labeler (take 20 messages)"

text \<open>
  For the statement of the confidence threshold: the messages that have a content and are
  classified, in order, each with its event, and the test of line 318.
\<close>

type_synonym classified_mail = "ustr \<times> email_content \<times> reservation_info"

definition classify_message :: "unicode \<Rightarrow> ustr \<times> email_content option \<Rightarrow> classified_mail option" where
  "classify_message U message =
     (case snd message of
        None \<Rightarrow> None
      | Some email_content \<Rightarrow>
          (case classify_email U (ec_subject email_content) (ec_body email_content) of
             None \<Rightarrow> None
           | Some reservation_info \<Rightarrow> Some (fst message, email_content, reservation_info)))"

definition classified :: "unicode \<Rightarrow> (ustr \<times> email_content option) list \<Rightarrow> classified_mail list" where
  "classified U messages = List.map_filter (classify_message U) messages"

definition passes_threshold :: "classified_mail \<Rightarrow> bool" where
  "passes_threshold c = (ri_confidence (snd (snd c)) > flt (7 / 10))"

definition data_of :: "classified_mail \<Rightarrow> reservation_data" where
  "data_of c = reservation_data_of (fst c) (fst (snd c)) (snd (snd c))"

definition label_of :: "classified_mail \<Rightarrow> label_call" where
  "label_of c = (fst c, ri_action_type (snd (snd c)), ri_customer_name (snd (snd c)))"

text \<open>
  \<^verbatim>\<open>parse_reservation_info\<close> (gmail\_parser.py 149-239), the parser of the legacy fetch.
  Its date patterns are \<^verbatim>\<open>(\d{4})[/-](\d{1,2})[/-](\d{1,2})\<close>, \<^verbatim>\<open>(\d{1,2})[/-](\d{1,2})\<close> and
  \<^verbatim>\<open>(\d{1,2}){gatsu}(\d{1,2}){nichi}\<close>; its time patterns are \<^verbatim>\<open>(\d{1,2}):(\d{2})\<close> and
  \<^verbatim>\<open>(\d{1,2}){ji}(\d{1,2}){fun}?\<close>. Each pattern is paired with its number of groups.
  The keys \<^verbatim>\<open>customer_name\<close> and \<^verbatim>\<open>raw_body\<close> of the result are not modelled:
  \<^verbatim>\<open>extract_customer_name\<close> and the slice cannot raise and no other key depends on them.
\<close>

definition slash_or_dash :: "nat \<Rightarrow> bool" where
  "slash_or_dash c = (c = 0x2F \<or> c = 0x2D)"

definition legacy_date_patterns :: "unicode \<Rightarrow> (rx \<times> nat) list" where
  "legacy_date_patterns U =
     [(seq [Grp 1 (digits U 4 4), One slash_or_dash, Grp 2 (digits U 1 2), One slash_or_dash,
            Grp 3 (digits U 1 2)], 3),
      (seq [Grp 1 (digits U 1 2), One slash_or_dash, Grp 2 (digits U 1 2)], 2),
      (seq [Grp 1 (digits U 1 2), Lit gatsu, Grp 2 (digits U 1 2), Lit nichi], 2)]"

definition legacy_time_patterns :: "unicode \<Rightarrow> (rx \<times> nat) list" where
  "legacy_time_patterns U =
     [(seq [Grp 1 (digits U 1 2), Lit (asc '':''), Grp 2 (digits U 2 2)], 2),
      (seq [Grp 1 (digits U 1 2), Lit [0x6642], Grp 2 (digits U 1 2),
            Rep True 0 (Some 1) (\<lambda>c. c = 0x5206)], 2)]"

text \<open>The tuple \<^verbatim>\<open>re.findall\<close> gives for a match of a pattern with \<open>n\<close> groups.\<close>

definition groups :: "nat \<Rightarrow> caps \<Rightarrow> ustr list" where
  "groups n g = map (mgroup g) [1 ..< Suc n]"

fun find_date :: "nat \<Rightarrow> (rx \<times> nat) list \<Rightarrow> ustr \<Rightarrow> ustr option" where
  "find_date current_year [] body = None"
| "find_date current_year ((pattern, n) # patterns) body =
     (case findall pattern body of
        [] \<Rightarrow> find_date current_year patterns body
      | m # _ \<Rightarrow>
          (case groups n m of
             [year, month, day] \<Rightarrow> Some (year @ asc ''-'' @ zfill 2 month @ asc ''-'' @ zfill 2 day)
           | [month, day] \<Rightarrow>
               Some (dec current_year @ asc ''-'' @ zfill 2 month @ asc ''-'' @ zfill 2 day)
           | _ \<Rightarrow> None))"

definition find_times :: "(rx \<times> nat) list \<Rightarrow> ustr \<Rightarrow> ustr list" where
  "find_times patterns body =
     concat (map (\<lambda>(pattern, n).
        concat (map (\<lambda>m. (case groups n m of
                             [hour, minute] \<Rightarrow> [zfill 2 hour @ asc '':'' @ zfill 2 minute]
                           | _ \<Rightarrow> []))
                  (findall pattern body)))
       patterns)"

text \<open>Lines 212-219: the end time made up when only one time was found.\<close>

definition synthesize_end :: "unicode \<Rightarrow> ustr \<Rightarrow> exn + ustr" where
  "synthesize_end U start_time =
     bind (item (split_on 0x3A start_time) 0) (\<lambda>h.
     bind (py_int U h) (\<lambda>start_hour.
     bind (item (split_on 0x3A start_time) 1) (\<lambda>m.
     bind (py_int U m) (\<lambda>start_minute.
       (let end_hour = start_hour + 1;
            end_minute = start_minute + 30;
            (end_hour, end_minute) =
               (if end_minute \<ge> 60 then (end_hour + 1, end_minute - 60)
                else (end_hour, end_minute))
        in Inr (fmt0 2 end_hour @ asc '':'' @ fmt0 2 end_minute))))))"

text \<open>
  The words that mark a cancellation ("kyanseru", "kyanseru" in hiragana, "torikeshi",
  "sakujo", "chuushi") and a charter ("chaataa", "kashikiri" in two spellings).
\<close>

definition legacy_cancel_words :: "ustr list" where
  "legacy_cancel_words =
     [asc ''cancel'', asc ''cancellation'', kyanseru, [0x304D, 0x3083, 0x3093, 0x305B, 0x308B],
      [0x53D6, 0x6D88], [0x524A, 0x9664], [0x4E2D, 0x6B62]]"

definition charter_words :: "ustr list" where
  "charter_words =
     [asc ''charter'', [0x30C1, 0x30E3, 0x30FC, 0x30BF, 0x30FC], [0x8CB8, 0x5207],
      [0x8CB8, 0x3057, 0x5207, 0x308A]]"

record parsed_reservation =
  p_date :: ustr
  p_start :: ustr
  p_end :: ustr
  p_type :: ustr
  p_source :: ustr
  p_email_subject :: ustr
  p_message_id :: ustr
  p_sender :: ustr
  p_is_cancellation :: bool
  p_action :: ustr

definition parse_reservation_info ::
  "unicode \<Rightarrow> nat \<Rightarrow> email_content option \<Rightarrow> exn + parsed_reservation option" where
  "parse_reservation_info U current_year content =
     (case content of
        None \<Rightarrow> Inr None
      | Some email_content \<Rightarrow>
          (let body = ec_body email_content;
               subject = ec_subject email_content;
               is_cancellation =
                 list_ex (\<lambda>word. subs word (u_lower U subject @ u_lower U body)) legacy_cancel_words;
               reservation_type =
                 (if list_ex (\<lambda>word. subs word (u_lower U subject @ u_lower U body)) charter_words
                  then asc ''charter'' else asc ''gmail'');
               date_found = find_date current_year (legacy_date_patterns U) body;
               times_found = find_times (legacy_time_patterns U) body
           in (case (date_found, times_found) of
                 (Some date, start_time # more_times) \<Rightarrow>
                   bind (case more_times of
                           [] \<Rightarrow> synthesize_end U start_time
                         | end_time # _ \<Rightarrow> Inr end_time)
                     (\<lambda>end_time.
                        Inr (Some \<lparr>p_date = date, p_start = start_time, p_end = end_time,
                                   p_type = reservation_type, p_source = asc ''gmail_auto'',
                                   p_email_subject = subject,
                                   p_message_id = ec_message_id email_content,
                                   p_sender = ec_sender email_content,
                                   p_is_cancellation = is_cancellation,
                                   p_action = (if is_cancellation then asc ''cancel''
                                               else asc ''book'')\<rparr>))
               | _ \<Rightarrow> Inr None)))"

section \<open>The fast Gmail sync (gmail\_fast\_sync.py)\<close>

text \<open>
  \<^verbatim>\<open>FastGmailSync.parse_reservation\<close> (gmail\_fast\_sync.py 242-335), the parser behind
  \<^verbatim>\<open>sync_gmail_reservations\<close>. Date patterns: \<^verbatim>\<open>(\d{4}){nen}(\d{1,2}){gatsu}(\d{1,2}){nichi}\<close>,
  \<^verbatim>\<open>(\d{4})[/-](\d{1,2})[/-](\d{1,2})\<close>, \<^verbatim>\<open>{nichiji}{fullwidth colon}(\d{4}){nen}(\d{1,2}){gatsu}(\d{1,2}){nichi}\<close>. Time
  patterns: \<^verbatim>\<open>(\d{1,2}):(\d{2})\s*[{wave dash}{fullwidth tilde}~-]\s*(\d{1,2}):(\d{2})\<close>, and the same with the
  single separators \<^verbatim>\<open>{fullwidth tilde}\<close> and \<^verbatim>\<open>-\<close> and no spaces. Customer patterns (searched with
  \<^verbatim>\<open>re.MULTILINE\<close>): \<^verbatim>\<open>^([^\n\r]+)\s*{sama}\<close>, \<^verbatim>\<open>(?:{onamae}|{shimei})[{fullwidth colon}:\s]*([^\n\r]+)\<close>,
  \<^verbatim>\<open>([^\n\r]+)\s*{sama}\s*\n\n(?:{go-yoyaku}|{ika no yoyaku})\<close>.
\<close>

definition fast_date_patterns :: "unicode \<Rightarrow> rx list" where
  "fast_date_patterns U =
     [date_pattern U,
      seq [Grp 1 (digits U 4 4), One slash_or_dash, Grp 2 (digits U 1 2), One slash_or_dash,
           Grp 3 (digits U 1 2)],
      seq [Lit [0x65E5, 0x6642, 0xFF1A], Grp 1 (digits U 4 4), Lit nen, Grp 2 (digits U 1 2),
           Lit gatsu, Grp 3 (digits U 1 2), Lit nichi]]"

definition range_separator :: "nat \<Rightarrow> bool" where
  "range_separator c = (c = 0x301C \<or> c = 0xFF5E \<or> c = 0x7E \<or> c = 0x2D)"

definition fast_time_patterns :: "unicode \<Rightarrow> rx list" where
  "fast_time_patterns U =
     [seq [Grp 1 (digits U 1 2), Lit (asc '':''), Grp 2 (digits U 2 2), Rep True 0 None isspace,
           One range_separator, Rep True 0 None isspace,
           Grp 3 (digits U 1 2), Lit (asc '':''), Grp 4 (digits U 2 2)],
      seq [Grp 1 (digits U 1 2), Lit (asc '':''), Grp 2 (digits U 2 2), Lit [0xFF5E],
           Grp 3 (digits U 1 2), Lit (asc '':''), Grp 4 (digits U 2 2)],
      seq [Grp 1 (digits U 1 2), Lit (asc '':''), Grp 2 (digits U 2 2), Lit (asc ''-''),
           Grp 3 (digits U 1 2), Lit (asc '':''), Grp 4 (digits U 2 2)]]"

definition not_newline :: "nat \<Rightarrow> bool" where
  "not_newline c = (c \<noteq> 0xA \<and> c \<noteq> 0xD)"

definition name_label_separator :: "nat \<Rightarrow> bool" where
  "name_label_separator c = (c = 0xFF1A \<or> c = 0x3A \<or> isspace c)"

definition fast_customer_patterns :: "rx list" where
  "fast_customer_patterns =
     [seq [Bol, Grp 1 (Rep True 1 None not_newline), Rep True 0 None isspace, Lit sama],
      seq [Alt (Lit [0x304A, 0x540D, 0x524D]) (Lit [0x6C0F, 0x540D]),
           Rep True 0 None name_label_separator, Grp 1 (Rep True 1 None not_newline)],
      seq [Grp 1 (Rep True 1 None not_newline), Rep True 0 None isspace, Lit sama,
           Rep True 0 None isspace, Lit [0xA, 0xA],
           Alt (Lit [0x3054, 0x4E88, 0x7D04]) (Lit [0x4EE5, 0x4E0B, 0x306E, 0x4E88, 0x7D04])]]"

text \<open>\<^verbatim>\<open>for pattern in patterns: m = re.search(pattern, body); if m: break\<close>\<close>

fun first_search :: "rx list \<Rightarrow> ustr \<Rightarrow> caps option" where
  "first_search [] body = None"
| "first_search (pattern # patterns) body =
     (case search pattern body of
        None \<Rightarrow> first_search patterns body
      | Some m \<Rightarrow> Some m)"

record fast_reservation =
  f_date :: ustr
  f_start :: ustr
  f_end :: ustr
  f_customer_name :: ustr
  f_type :: ustr
  f_is_cancellation :: bool
  f_source :: ustr

definition parse_reservation :: "unicode \<Rightarrow> ustr \<Rightarrow> ustr \<Rightarrow> fast_reservation option" where
  "parse_reservation U body subject =
     (if body = [] then None
      else (let body_lower = u_lower U body
            in if \<not> (subs shibuya body \<or> subs (asc ''shibuya'') body_lower \<or>
                      subs (asc ''hallel'') body_lower) then None
               else (let is_cancellation =
                           (subs kyanseru subject \<or> subs (asc ''cancel'') (u_lower U subject))
                     in (case first_search (fast_date_patterns U) body of
                           None \<Rightarrow> None
                         | Some date_match \<Rightarrow>
                             (let date = mgroup date_match 1 @ asc ''-'' @ zfill 2 (mgroup date_match 2)
                                           @ asc ''-'' @ zfill 2 (mgroup date_match 3)
                              in (case first_search (fast_time_patterns U) body of
                                    None \<Rightarrow> None
                                  | Some time_match \<Rightarrow>
                                      (let start_time = zfill 2 (mgroup time_match 1) @ asc '':''
                                                          @ mgroup time_match 2;
                                           end_time = zfill 2 (mgroup time_match 3) @ asc '':''
                                                        @ mgroup time_match 4;
                                           customer_name =
                                             (case first_search fast_customer_patterns body of
                                                None \<Rightarrow> asc ''N/A''
                                              | Some customer_match \<Rightarrow>
                                                  strip (filter (\<lambda>c. c \<noteq> 0x69D8)
                                                           (strip (mgroup customer_match 1))))
                                       in Some \<lparr>f_date = date, f_start = start_time,
                                                f_end = end_time, f_customer_name = customer_name,
                                                f_type = asc ''gmail'',
                                                f_is_cancellation = is_cancellation,
                                                f_source = asc ''fast_gmail_sync''\<rparr>)))))))"

text \<open>
  The event as \<^verbatim>\<open>sync_gmail_reservations\<close> reads it, after \<^verbatim>\<open>get_recent_reservations\<close>
  has added \<^verbatim>\<open>email_id\<close>, \<^verbatim>\<open>email_subject\<close> and \<^verbatim>\<open>email_sender\<close>.
\<close>

definition synced_reservation :: "ustr \<Rightarrow> fast_reservation \<Rightarrow> gmail_reservation" where
  "synced_reservation subject reservation =
     \<lparr>r_date = f_date reservation, r_start = f_start reservation, r_end = f_end reservation,
      r_source = f_source reservation, r_customer_name = Some (f_customer_name reservation),
      r_action_type = None, r_confidence = None, r_sender = None,
      r_email_subject = Some subject, r_message_id = None\<rparr>"

section \<open>The confidence score as the specification words it\<close>

text \<open>
  The keywords and the increment of an action, \<open>n\<close> additions of the same double, and the
  score of \<open>k\<close> matched keywords and \<open>j\<close> of the three further signals (date pattern,
  time pattern, brand literal), in the order the code adds them.
\<close>

definition keywords_of :: "action \<Rightarrow> ustr list" where
  "keywords_of a = (case a of Booking \<Rightarrow> booking_keywords | Cancellation \<Rightarrow> cancellation_keywords)"

definition increment_of :: "action \<Rightarrow> rat" where
  "increment_of a = (case a of Booking \<Rightarrow> flt (1 / 10) | Cancellation \<Rightarrow> flt (15 / 100))"

definition add_times :: "nat \<Rightarrow> rat \<Rightarrow> rat \<Rightarrow> rat" where
  "add_times n d c = ((\<lambda>x. fadd x d) ^^ n) c"

definition signals_score :: "action \<Rightarrow> nat \<Rightarrow> nat \<Rightarrow> rat" where
  "signals_score a k j =
     min (add_times j (flt (1 / 10)) (add_times k (increment_of a) (flt (5 / 10)))) (flt 1)"

text \<open>The same score in exact arithmetic: 0.5, plus 0.1 or 0.15 a keyword, plus 0.1 a signal.\<close>

definition exact_increment :: "action \<Rightarrow> rat" where
  "exact_increment a = (case a of Booking \<Rightarrow> 1 / 10 | Cancellation \<Rightarrow> 15 / 100)"

definition exact_score :: "action \<Rightarrow> nat \<Rightarrow> nat \<Rightarrow> rat" where
  "exact_score a k j = min (5 / 10 + of_nat k * exact_increment a + of_nat j * (1 / 10)) 1"

definition matched_keywords :: "action \<Rightarrow> ustr \<Rightarrow> ustr list" where
  "matched_keywords a body = filter (\<lambda>keyword. subs keyword body) (keywords_of a)"

definition structure_signals :: "unicode \<Rightarrow> ustr \<Rightarrow> bool list" where
  "structure_signals U body =
     [search (date_pattern U) body \<noteq> None, search (time_pattern U) body \<noteq> None,
      subs (asc ''HALLEL'') body]"

section \<open>Example inputs\<close>

text \<open>
  Events as \<^verbatim>\<open>FastGmailSync.parse_reservation\<close> builds them (no \<^verbatim>\<open>action_type\<close>,
  \<^verbatim>\<open>confidence\<close>, \<^verbatim>\<open>sender\<close> or \<^verbatim>\<open>message_id\<close> key), the same booking seen in a
  second mail, a booking of the same start time by another customer, and a cancellation.
\<close>

definition ex_now :: ustr where
  "ex_now = asc ''2025-11-01 09:00:00''"

definition ex_booking :: gmail_reservation where
  "ex_booking = \<lparr>r_date = asc ''2025-11-02'', r_start = asc ''10:00'', r_end = asc ''11:00'',
     r_source = asc ''fast_gmail_sync'', r_customer_name = Some (asc ''Tanaka''),
     r_action_type = None, r_confidence = None, r_sender = None,
     r_email_subject = Some (asc ''HALLEL 1''), r_message_id = None\<rparr>"

definition ex_booking_again :: gmail_reservation where
  "ex_booking_again = ex_booking\<lparr>r_email_subject := Some (asc ''HALLEL 2''),
     r_message_id := Some (asc ''msg-2'')\<rparr>"

definition ex_booking_other :: gmail_reservation where
  "ex_booking_other = ex_booking\<lparr>r_customer_name := Some (asc ''Suzuki'')\<rparr>"

definition ex_state :: app_state where
  "ex_state = \<lparr>reservations_db = initial_db, reservation_judgment_logs = []\<rparr>"

definition ex_gas_booking :: gas_reservation where
  "ex_gas_booking = \<lparr>g_date = asc ''2025-11-02'', g_start = asc ''10:00'', g_end = asc ''11:00'',
     g_type = asc ''gmail'', g_customer_name = Some (asc ''Tanaka''), g_is_cancellation = False\<rparr>"

definition ex_gas_nameless :: gas_reservation where
  "ex_gas_nameless = ex_gas_booking\<lparr>g_customer_name := None\<rparr>"

definition ex_gas_cancel :: gas_reservation where
  "ex_gas_cancel = ex_gas_booking\<lparr>g_is_cancellation := True\<rparr>"

text \<open>A day holding three slots: another customer's, then two that the cancellations match.\<close>

definition ex_day :: "slot list" where
  "ex_day = [gmail_slot ex_booking_other, gmail_slot ex_booking, gmail_slot ex_booking_again]"

definition ex_busy_state :: app_state where
  "ex_busy_state = \<lparr>reservations_db = initial_db(asc ''2025-11-02'' \<mapsto> ex_day),
     reservation_judgment_logs = []\<rparr>"

definition ex_gas_day :: "slot list" where
  "ex_gas_day = [gas_slot (ex_gas_booking\<lparr>g_start := asc ''09:00''\<rparr>),
                 gas_slot ex_gas_booking,
                 gas_slot (ex_gas_booking\<lparr>g_customer_name := Some (asc ''Suzuki'')\<rparr>)]"

definition ex_hacomono_booking :: hacomono_reservation where
  "ex_hacomono_booking = \<lparr>h_date = asc ''2025-11-02'', h_start = asc ''10:00'',
     h_end = asc ''11:00'', h_type = asc ''charter'', h_source = asc ''hacomono'',
     h_customer_name = None, h_status = None\<rparr>"

definition ex_full_log :: "log_entry list" where
  "ex_full_log = replicate 200 (Manual ex_now (asc ''note''))"

text \<open>
  Mails: a booking confirmation of the Shibuya store, the same text naming the Hanzomon
  store instead, and a legacy mail with a date and a single time.
\<close>

definition ex_subject :: ustr where
  "ex_subject = asc ''HALLEL''"

definition ex_body :: ustr where
  "ex_body = asc ''Tanaka '' @ sama @ [0xA] @ asc ''HALLEL '' @ shibuya_ten @ asc '' STUDIO '' @ [0x2465]
     @ asc '' (1)'' @ [0xA] @ booking_keywords ! 3 @ [0xA]
     @ asc ''2025'' @ nen @ asc ''11'' @ gatsu @ asc ''02'' @ nichi @ asc '' 10:00~11:30''"

definition ex_cancel_body :: ustr where
  "ex_cancel_body = ex_body @ [0xA] @ cancellation_keywords ! 2"

definition ex_no_time_body :: ustr where
  "ex_no_time_body = asc ''HALLEL '' @ shibuya_ten @ [0xA] @ cancellation_keywords ! 2 @ [0xA]
     @ asc ''2025'' @ nen @ asc ''11'' @ gatsu @ asc ''02'' @ nichi"

definition ex_date_info :: date_info where
  "ex_date_info = \<lparr>di_date = asc ''2025-11-02'', di_start_time = asc ''10:00'',
     di_end_time = asc ''11:30'', di_duration = 90\<rparr>"

definition ex_hanzomon_reservation :: fast_reservation where
  "ex_hanzomon_reservation = \<lparr>f_date = asc ''2025-11-02'', f_start = asc ''10:00'',
     f_end = asc ''11:30'', f_customer_name = asc ''Tanaka'', f_type = asc ''gmail'',
     f_is_cancellation = False, f_source = asc ''fast_gmail_sync''\<rparr>"

definition ex_hanzomon_subject :: ustr where
  "ex_hanzomon_subject = asc ''HALLEL '' @ hanzomon_ten"

definition ex_brand_only_body :: ustr where
  "ex_brand_only_body = asc ''HALLEL'' @ [0xA] @ booking_keywords ! 3 @ [0xA]
     @ asc ''2025'' @ nen @ asc ''11'' @ gatsu @ asc ''02'' @ nichi @ asc '' 10:00~11:30''"

definition ex_low_body :: ustr where
  "ex_low_body = shibuya_ten @ asc '' cancel '' @ asc ''2025'' @ nen @ asc ''11'' @ gatsu
     @ asc ''02'' @ nichi @ asc '' 10:00~11:30''"

definition ex_mail :: "ustr \<Rightarrow> email_content" where
  "ex_mail body = \<lparr>ec_subject = ex_subject, ec_sender = asc ''noreply@em.hacomono.jp'',
     ec_body = body, ec_message_id = asc ''m''\<rparr>"

definition ex_messages :: "(ustr \<times> email_content option) list" where
  "ex_messages = [(asc ''m1'', Some (ex_mail ex_body)), (asc ''m2'', Some (ex_mail ex_low_body)),
                  (asc ''m3'', None)]"

definition ex_legacy_parsed :: parsed_reservation where
  "ex_legacy_parsed = \<lparr>p_date = asc ''2025-11-02'', p_start = asc ''23:45'',
     p_end = asc ''25:15'', p_type = asc ''gmail'', p_source = asc ''gmail_auto'',
     p_email_subject = asc ''booking'', p_message_id = asc ''m1'',
     p_sender = asc ''noreply@em.hacomono.jp'', p_is_cancellation = False,
     p_action = asc ''book''\<rparr>"

definition ex_legacy_mail :: email_content where
  "ex_legacy_mail = \<lparr>ec_subject = asc ''booking'', ec_sender = asc ''noreply@em.hacomono.jp'',
     ec_body = asc ''2025/11/02 23:45 Tanaka'', ec_message_id = asc ''m1''\<rparr>"

definition ex_hanzomon_body :: ustr where
  "ex_hanzomon_body = asc ''Tanaka '' @ sama @ [0xA] @ asc ''HALLEL '' @ hanzomon_ten @ [0xA]
     @ asc ''2025'' @ nen @ asc ''11'' @ gatsu @ asc ''02'' @ nichi @ asc '' 10:00~11:30''"

section \<open>Properties of the merge loops\<close>

lemmas ex_defs = ex_now_def ex_booking_def ex_booking_again_def ex_booking_other_def
  ex_state_def ex_gas_booking_def ex_gas_cancel_def ex_day_def ex_busy_state_def ex_gas_day_def
  initial_db_def ex_hacomono_booking_def



lemma slots_on_ensure_date: "slots_on (ensure_date db d) d' = slots_on db d'"
  by (auto simp: slots_on_def ensure_date_def dom_def split: option.splits)


lemma ensure_date_present: "list_ex P (slots_on db d) \<Longrightarrow> ensure_date db d = db"
  by (auto simp: ensure_date_def slots_on_def split: option.splits)

lemma slots_on_upd: "slots_on (db(d \<mapsto> xs)) d = xs"
  by (simp add: slots_on_def)

lemma asc_booking_neq: "asc ''booking'' \<noteq> asc ''cancellation''"
  by (simp add: asc_def)

lemma gmail_booking_step:
  assumes "get_or (r_action_type r) (asc ''booking'') = asc ''booking''"
  shows "snd (sync_gmail_step now st r) =
           (if list_ex (gmail_match (r_start r) (get_or (r_customer_name r) (asc ''N/A'')))
                 (slots_on (reservations_db st) (r_date r))
            then Skipped_Duplicate else Added)"
    and "reservations_db (fst (sync_gmail_step now st r)) =
           (if list_ex (gmail_match (r_start r) (get_or (r_customer_name r) (asc ''N/A'')))
                 (slots_on (reservations_db st) (r_date r))
            then reservations_db st
            else (reservations_db st)(r_date r \<mapsto> slots_on (reservations_db st) (r_date r) @ [gmail_slot r]))"
proof -
  let ?D = "list_ex (gmail_match (r_start r) (get_or (r_customer_name r) (asc ''N/A'')))
                 (slots_on (reservations_db st) (r_date r))"
  show "snd (sync_gmail_step now st r) = (if ?D then Skipped_Duplicate else Added)"
    using assms by (simp add: sync_gmail_step_def Let_def asc_booking_neq slots_on_ensure_date)
  show "reservations_db (fst (sync_gmail_step now st r)) =
           (if ?D then reservations_db st
            else (reservations_db st)(r_date r \<mapsto> slots_on (reservations_db st) (r_date r) @ [gmail_slot r]))"
  proof (cases ?D)
    case True
    then show ?thesis
      using assms
      by (simp add: sync_gmail_step_def Let_def asc_booking_neq slots_on_ensure_date
            ensure_date_present)
  next
    case False
    have "(ensure_date (reservations_db st) (r_date r))(r_date r \<mapsto> xs) =
          (reservations_db st)(r_date r \<mapsto> xs)" for xs
      by (simp add: ensure_date_def)
    with False show ?thesis
      using assms
      by (simp add: sync_gmail_step_def Let_def asc_booking_neq slots_on_ensure_date)
  qed
qed

lemma gmail_slot_matches:
  "gmail_match (r_start r) (get_or (r_customer_name r) (asc ''N/A'')) (gmail_slot r)"
  by (simp add: gmail_match_def gmail_slot_def)

lemma gmail_booking_then_duplicate:
  assumes "get_or (r_action_type r) (asc ''booking'') = asc ''booking''"
  shows "list_ex (gmail_match (r_start r) (get_or (r_customer_name r) (asc ''N/A'')))
           (slots_on (reservations_db (fst (sync_gmail_step now st r))) (r_date r))"
  using assms gmail_slot_matches[of r]
  by (auto simp: gmail_booking_step(2) slots_on_upd)

lemma gas_booking_step:
  assumes "\<not> g_is_cancellation g"
  shows "snd (gas_webhook_step db g) =
           (if list_ex (gas_duplicate_match g) (slots_on db (g_date g))
            then Skipped_Duplicate else Added)"
    and "fst (gas_webhook_step db g) =
           (if list_ex (gas_duplicate_match g) (slots_on db (g_date g))
            then db else db(g_date g \<mapsto> slots_on db (g_date g) @ [gas_slot g]))"
proof -
  let ?D = "list_ex (gas_duplicate_match g) (slots_on db (g_date g))"
  show "snd (gas_webhook_step db g) = (if ?D then Skipped_Duplicate else Added)"
    using assms by (simp add: gas_webhook_step_def Let_def slots_on_ensure_date)
  show "fst (gas_webhook_step db g) =
           (if ?D then db else db(g_date g \<mapsto> slots_on db (g_date g) @ [gas_slot g]))"
  proof (cases ?D)
    case True
    then show ?thesis
      using assms
      by (simp add: gas_webhook_step_def Let_def slots_on_ensure_date ensure_date_present)
  next
    case False
    have "(ensure_date db (g_date g))(g_date g \<mapsto> xs) = db(g_date g \<mapsto> xs)" for xs
      by (simp add: ensure_date_def)
    with False show ?thesis
      using assms by (simp add: gas_webhook_step_def Let_def slots_on_ensure_date)
  qed
qed

lemma gas_slot_matches:
  "g_customer_name g = Some name \<Longrightarrow> gas_duplicate_match g (gas_slot g)"
  by (simp add: gas_duplicate_match_def gas_slot_def get_or_def empty_slot_def)

lemma gas_booking_then_duplicate:
  assumes "\<not> g_is_cancellation g" and "g_customer_name g = Some name"
  shows "list_ex (gas_duplicate_match g) (slots_on (fst (gas_webhook_step db g)) (g_date g))"
  using assms gas_slot_matches[of g name]
  by (auto simp: gas_booking_step(2) slots_on_upd)

lemma gas_duplicate_match_cong:
  "g_start g' = g_start g \<Longrightarrow> g_end g' = g_end g \<Longrightarrow> g_customer_name g' = g_customer_name g \<Longrightarrow>
   gas_duplicate_match g' = gas_duplicate_match g"
  by (auto simp: gas_duplicate_match_def fun_eq_iff)

text \<open>
  Claim C1, as amended. A booking event is applied twice in succession, the second time
  possibly from another mail (the two agree on date, start and customer name, and for the
  webhook on the end time too; \<^verbatim>\<open>message_id\<close> is free). If the store holds no duplicate
  of the event on its date, the first application appends exactly one slot (Added);
  if it already holds one, the first application is itself Skipped-Duplicate and leaves
  the store as it is. In both cases the second application is Skipped-Duplicate and leaves
  the store unchanged. The duplicate key is (start, customer name) in the Gmail sync and
  (start, end, customer name) in the webhook; the webhook part is stated for events that
  carry a customer name.
\<close>

theorem booking_applied_twice:
  assumes "get_or (r_action_type r) (asc ''booking'') = asc ''booking''"
    and "get_or (r_action_type r') (asc ''booking'') = asc ''booking''"
    and "r_date r' = r_date r" and "r_start r' = r_start r"
    and "get_or (r_customer_name r') (asc ''N/A'') = get_or (r_customer_name r) (asc ''N/A'')"
    and "\<not> g_is_cancellation g" and "g_customer_name g = Some name"
    and "\<not> g_is_cancellation g'" and "g_date g' = g_date g" and "g_start g' = g_start g"
    and "g_end g' = g_end g" and "g_customer_name g' = g_customer_name g"
  shows "(snd (sync_gmail_step now st r) =
            (if list_ex (gmail_match (r_start r) (get_or (r_customer_name r) (asc ''N/A'')))
                  (slots_on (reservations_db st) (r_date r))
             then Skipped_Duplicate else Added)
          \<and> reservations_db (fst (sync_gmail_step now st r)) =
            (if list_ex (gmail_match (r_start r) (get_or (r_customer_name r) (asc ''N/A'')))
                  (slots_on (reservations_db st) (r_date r))
             then reservations_db st
             else (reservations_db st)(r_date r \<mapsto>
                    slots_on (reservations_db st) (r_date r) @ [gmail_slot r]))
          \<and> snd (sync_gmail_step now' (fst (sync_gmail_step now st r)) r') = Skipped_Duplicate
          \<and> reservations_db (fst (sync_gmail_step now' (fst (sync_gmail_step now st r)) r')) =
              reservations_db (fst (sync_gmail_step now st r)))
       \<and> (snd (gas_webhook_step db g) =
            (if list_ex (gas_duplicate_match g) (slots_on db (g_date g))
             then Skipped_Duplicate else Added)
          \<and> fst (gas_webhook_step db g) =
            (if list_ex (gas_duplicate_match g) (slots_on db (g_date g))
             then db else db(g_date g \<mapsto> slots_on db (g_date g) @ [gas_slot g]))
          \<and> snd (gas_webhook_step (fst (gas_webhook_step db g)) g') = Skipped_Duplicate
          \<and> fst (gas_webhook_step (fst (gas_webhook_step db g)) g') = fst (gas_webhook_step db g))"
proof -
  let ?st1 = "fst (sync_gmail_step now st r)"
  have d1: "list_ex (gmail_match (r_start r') (get_or (r_customer_name r') (asc ''N/A'')))
              (slots_on (reservations_db ?st1) (r_date r'))"
    using gmail_booking_then_duplicate[OF assms(1), of now st] assms(3,4,5) by simp
  have a: "snd (sync_gmail_step now' ?st1 r') = Skipped_Duplicate"
    using gmail_booking_step(1)[OF assms(2), of now' ?st1] d1 by simp
  have b: "reservations_db (fst (sync_gmail_step now' ?st1 r')) = reservations_db ?st1"
    using gmail_booking_step(2)[OF assms(2), of now' ?st1] d1 by simp
  let ?db1 = "fst (gas_webhook_step db g)"
  have m: "gas_duplicate_match g' = gas_duplicate_match g"
    using assms(10,11,12) by (rule gas_duplicate_match_cong)
  have d2: "list_ex (gas_duplicate_match g') (slots_on ?db1 (g_date g'))"
    using gas_booking_then_duplicate[OF assms(6,7), of db] m assms(9) by simp
  have c: "snd (gas_webhook_step ?db1 g') = Skipped_Duplicate"
    using gas_booking_step(1)[OF assms(8), of ?db1] d2 by simp
  have d: "fst (gas_webhook_step ?db1 g') = ?db1"
    using gas_booking_step(2)[OF assms(8), of ?db1] d2 by simp
  show ?thesis
    using gmail_booking_step[OF assms(1), of now st] gas_booking_step[OF assms(6), of db] a b c d
    by simp
qed

text \<open>
  Witness for C1: a booking applied to the empty store and then again from a second mail
  with another \<^verbatim>\<open>message_id\<close> (Scenario E), in the Gmail sync and in the webhook.
\<close>

theorem booking_applied_twice_witness:
  "get_or (r_action_type ex_booking) (asc ''booking'') = asc ''booking''
   \<and> get_or (r_action_type ex_booking_again) (asc ''booking'') = asc ''booking''
   \<and> r_date ex_booking_again = r_date ex_booking
   \<and> r_start ex_booking_again = r_start ex_booking
   \<and> get_or (r_customer_name ex_booking_again) (asc ''N/A'') =
       get_or (r_customer_name ex_booking) (asc ''N/A'')
   \<and> r_message_id ex_booking_again \<noteq> r_message_id ex_booking
   \<and> \<not> g_is_cancellation ex_gas_booking
   \<and> g_customer_name ex_gas_booking = Some (asc ''Tanaka'')
   \<and> snd (sync_gmail_step ex_now ex_state ex_booking) = Added
   \<and> snd (sync_gmail_step ex_now (fst (sync_gmail_step ex_now ex_state ex_booking)) ex_booking_again)
       = Skipped_Duplicate
   \<and> reservations_db (fst (sync_gmail_step ex_now (fst (sync_gmail_step ex_now ex_state ex_booking))
        ex_booking_again)) = reservations_db (fst (sync_gmail_step ex_now ex_state ex_booking))
   \<and> slots_on (reservations_db (fst (sync_gmail_step ex_now ex_state ex_booking))) (r_date ex_booking)
       = [gmail_slot ex_booking]
   \<and> snd (gas_webhook_step initial_db ex_gas_booking) = Added
   \<and> snd (gas_webhook_step (fst (gas_webhook_step initial_db ex_gas_booking)) ex_gas_booking)
       = Skipped_Duplicate
   \<and> fst (gas_webhook_step (fst (gas_webhook_step initial_db ex_gas_booking)) ex_gas_booking) =
       fst (gas_webhook_step initial_db ex_gas_booking)
   \<and> slots_on (fst (gas_webhook_step initial_db ex_gas_booking)) (g_date ex_gas_booking)
       = [gas_slot ex_gas_booking]"
proof -
  have h: "get_or (r_action_type ex_booking) (asc ''booking'') = asc ''booking''"
    "get_or (r_action_type ex_booking_again) (asc ''booking'') = asc ''booking''"
    "r_date ex_booking_again = r_date ex_booking"
    "r_start ex_booking_again = r_start ex_booking"
    "get_or (r_customer_name ex_booking_again) (asc ''N/A'') =
       get_or (r_customer_name ex_booking) (asc ''N/A'')"
    "\<not> g_is_cancellation ex_gas_booking"
    "g_customer_name ex_gas_booking = Some (asc ''Tanaka'')"
    "\<not> g_is_cancellation ex_gas_booking"
    "g_date ex_gas_booking = g_date ex_gas_booking"
    "g_start ex_gas_booking = g_start ex_gas_booking"
    "g_end ex_gas_booking = g_end ex_gas_booking"
    "g_customer_name ex_gas_booking = g_customer_name ex_gas_booking"
    by (simp_all add: ex_defs get_or_def)
  have m: "r_message_id ex_booking_again \<noteq> r_message_id ex_booking"
    by (simp add: ex_defs)
  have n: "slots_on (reservations_db ex_state) (r_date ex_booking) = []"
    "slots_on initial_db (g_date ex_gas_booking) = []"
    by (simp_all add: ex_defs slots_on_def)
  note c = booking_applied_twice[OF h, of ex_now ex_state ex_now initial_db,
      unfolded n list_ex_Nil_iff if_False append_Nil]
  have s1: "slots_on (reservations_db (fst (sync_gmail_step ex_now ex_state ex_booking)))
              (r_date ex_booking) = [gmail_slot ex_booking]"
    by (simp only: c slots_on_upd)
  have s2: "slots_on (fst (gas_webhook_step initial_db ex_gas_booking)) (g_date ex_gas_booking)
              = [gas_slot ex_gas_booking]"
    by (simp only: c slots_on_upd)
  from c h m s1 s2 show ?thesis by blast
qed

text \<open>
  The webhook stores an absent \<^verbatim>\<open>customer_name\<close> as "N/A" but compares the stored name
  with the absent one, so a booking without a name is appended again when it is applied
  again. (The statement of C1 above leaves this case out.)
\<close>

lemma gas_booking_without_name_twice:
  "slots_on (fst (gas_webhook_step (fst (gas_webhook_step initial_db ex_gas_nameless)) ex_gas_nameless))
     (g_date ex_gas_nameless) = [gas_slot ex_gas_nameless, gas_slot ex_gas_nameless]"
  by (simp add: gas_webhook_step_def Let_def ex_gas_nameless_def ex_gas_booking_def initial_db_def
        slots_on_def ensure_date_def dom_def gas_duplicate_match_def gas_slot_def empty_slot_def
        get_or_def asc_def)

text \<open>
  Counterexample to C1 as stated ("for every schedule store the first application appends
  one slot, outcome Added"): on a store that already holds the customer's slot at that
  start time, the first application is skipped and appends nothing.
\<close>

theorem booking_on_duplicate_counterexample:
  "snd (sync_gmail_step ex_now ex_busy_state ex_booking) = Skipped_Duplicate
   \<and> reservations_db (fst (sync_gmail_step ex_now ex_busy_state ex_booking)) =
       reservations_db ex_busy_state"
proof -
  have d: "list_ex (gmail_match (r_start ex_booking) (get_or (r_customer_name ex_booking) (asc ''N/A'')))
             (slots_on (reservations_db ex_busy_state) (r_date ex_booking))"
    by (simp add: ex_defs get_or_def slots_on_def gmail_match_def gmail_slot_def)
  have b: "get_or (r_action_type ex_booking) (asc ''booking'') = asc ''booking''"
    by (simp add: ex_defs get_or_def)
  show ?thesis using gmail_booking_step[OF b, of ex_now ex_busy_state] d by simp
qed



text \<open>
  The Gmail sync reads the key \<^verbatim>\<open>action_type\<close> of an event, with default
  \<^verbatim>\<open>'booking'\<close>. The events it receives are built by \<^verbatim>\<open>FastGmailSync\<close>, which sets
  \<^verbatim>\<open>is_cancellation\<close> and never \<^verbatim>\<open>action_type\<close>: whatever the flag says, such an event
  takes the booking branch, so its outcome is Added or Skipped-Duplicate and never
  Cancelled or Cancel-Not-Found. Cancellations reach the store through the webhook only.
\<close>

lemma synced_reservation_is_booked:
  "snd (sync_gmail_step now st (synced_reservation subject f)) =
     (if list_ex (gmail_match (f_start f) (f_customer_name f))
           (slots_on (reservations_db st) (f_date f))
      then Skipped_Duplicate else Added)"
proof -
  have b: "get_or (r_action_type (synced_reservation subject f)) (asc ''booking'') = asc ''booking''"
    by (simp add: synced_reservation_def get_or_def)
  show ?thesis
    using gmail_booking_step(1)[OF b, of now st]
    by (simp add: synced_reservation_def get_or_def)
qed




text \<open>
  The hacomono sync numbers an appended slot by the same-start slots already there.
\<close>

lemma hacomono_group:
  "\<not> list_ex (hacomono_match h) (slots_on db (h_date h)) \<Longrightarrow>
   snd (sync_hacomono_step db h) = Added \<and>
   slots_on (fst (sync_hacomono_step db h)) (h_date h) =
     slots_on db (h_date h) @ [hacomono_slot (slots_on db (h_date h)) h] \<and>
   s_group (hacomono_slot (slots_on db (h_date h)) h) =
     Some (length (filter (same_start (h_start h)) (slots_on db (h_date h))) + 1)"
  by (simp add: sync_hacomono_step_def Let_def slots_on_ensure_date slots_on_upd
        hacomono_slot_def empty_slot_def)

text \<open>
  Claim C8 at a failing input. The Gmail sync appends a second customer's booking at a
  start time that already holds one slot: the appended slot carries group 1, where the
  count of same-start slots plus one is 2.
\<close>

theorem gmail_sync_group_is_one:
  "snd (sync_gmail_step ex_now (fst (sync_gmail_step ex_now ex_state ex_booking)) ex_booking_other) = Added
   \<and> slots_on (reservations_db (fst (sync_gmail_step ex_now
         (fst (sync_gmail_step ex_now ex_state ex_booking)) ex_booking_other))) (r_date ex_booking_other)
       = [gmail_slot ex_booking, gmail_slot ex_booking_other]
   \<and> s_group (gmail_slot ex_booking_other) = Some 1
   \<and> length (filter (same_start (r_start ex_booking_other))
         (slots_on (reservations_db (fst (sync_gmail_step ex_now ex_state ex_booking)))
            (r_date ex_booking_other))) + 1 = 2"
  by (simp add: sync_gmail_step_def Let_def ex_defs get_or_def slots_on_def ensure_date_def
        dom_def gmail_match_def gmail_slot_def same_start_def asc_def)

section \<open>The judgment log\<close>

text \<open>
  \<^verbatim>\<open>log_reservation_judgment\<close> and \<^verbatim>\<open>add_log\<close> append at the end and drop the oldest
  entry once the log would hold more than 200; they keep a log within the bound.
\<close>

lemma log_reservation_judgment_fifo:
  "log_reservation_judgment now a d t c conf logs =
     (if length logs < 200 then logs @ [Judgment now (action_emoji a) a c d t conf]
      else tl (logs @ [Judgment now (action_emoji a) a c d t conf]))"
  by (simp add: log_reservation_judgment_def Let_def)

lemma log_reservation_judgment_bounded:
  "length logs \<le> 200 \<Longrightarrow> length (log_reservation_judgment now a d t c conf logs) \<le> 200"
  by (simp add: log_reservation_judgment_def Let_def)

lemma add_log_bounded:
  "length logs \<le> 200 \<Longrightarrow> length (add_log li now msg logs) \<le> 200"
  by (simp add: add_log_def Let_def)

text \<open>
  Claim C9 at a failing input. \<^verbatim>\<open>export_logs\<close> appends its entry without the trim: on a
  log of 200 entries it leaves 201, and each later \<^verbatim>\<open>log_reservation_judgment\<close> or
  \<^verbatim>\<open>add_log\<close> drops one entry for the one it adds, so the log stays at 201.
\<close>

theorem export_logs_exceeds_bound:
  "length ex_full_log = 200
   \<and> length (export_logs True ex_now ex_full_log) = 201
   \<and> length (log_reservation_judgment ex_now (asc ''booking'') (asc ''2025-11-02'')
        (asc ''10:00-11:00'') (asc ''Tanaka'') 1 (export_logs True ex_now ex_full_log)) = 201
   \<and> length (add_log True ex_now (asc ''note'') (export_logs True ex_now ex_full_log)) = 201"
  by (simp add: ex_full_log_def export_logs_def log_reservation_judgment_def add_log_def Let_def
        asc_def)

section \<open>Properties of the classifier\<close>

lemma determine_cancellation:
  assumes "keyword \<in> set cancellation_keywords" and "subs keyword body"
  shows "determine_action_type U body = Some Cancellation"
proof -
  have "list_ex (\<lambda>keyword. subs keyword body) cancellation_keywords"
    using assms by (auto simp: list_ex_iff)
  then show ?thesis by (simp add: determine_action_type_def Let_def)
qed

lemma classify_email_Some:
  "classify_email U subject body = Some info \<longleftrightarrow>
     is_hallel_email U subject body \<and>
     (\<exists>a d. determine_action_type U body = Some a \<and> extract_date_time U body = Inr (Some d) \<and>
        info = \<lparr>ri_action_type = a, ri_date = di_date d, ri_start_time = di_start_time d,
                ri_end_time = di_end_time d, ri_customer_name = extract_customer_name body,
                ri_studio = extract_studio_info U body, ri_duration_minutes = di_duration d,
                ri_confidence = calculate_confidence U a body, ri_raw_text = body\<rparr>)"
  by (auto simp: classify_email_def Let_def split: option.splits sum.splits)

lemma classify_email_None:
  "classify_email U subject body = None \<longleftrightarrow>
     \<not> is_hallel_email U subject body \<or> determine_action_type U body = None \<or>
     (\<forall>d. extract_date_time U body \<noteq> Inr (Some d))"
  by (auto simp: classify_email_def Let_def split: option.splits sum.splits)

text \<open>
  Claim C3. For every mail that passes the brand and location filter and whose body
  contains a cancellation keyword, the action is Cancellation, whatever booking keywords
  the body contains too: \<^verbatim>\<open>_determine_action_type\<close> answers Cancellation, every event
  \<^verbatim>\<open>classify_email\<close> returns carries it, and an event is returned exactly when the date
  and time extraction succeeds.
\<close>

theorem cancellation_keyword_wins:
  assumes "is_hallel_email U subject body"
    and "keyword \<in> set cancellation_keywords" and "subs keyword body"
  shows "determine_action_type U body = Some Cancellation
         \<and> (\<forall>info. classify_email U subject body = Some info \<longrightarrow> ri_action_type info = Cancellation)
         \<and> (classify_email U subject body \<noteq> None \<longleftrightarrow> (\<exists>d. extract_date_time U body = Inr (Some d)))"
proof -
  have a: "determine_action_type U body = Some Cancellation"
    using assms(2,3) by (rule determine_cancellation)
  have b: "\<forall>info. classify_email U subject body = Some info \<longrightarrow> ri_action_type info = Cancellation"
    using a by (auto simp: classify_email_Some)
  have c: "classify_email U subject body \<noteq> None \<longleftrightarrow> (\<exists>d. extract_date_time U body = Inr (Some d))"
    using a assms(1) by (auto simp: classify_email_None)
  from a b c show ?thesis by blast
qed

lemma is_hallel_email_location:
  "is_hallel_email U subject body \<Longrightarrow>
     \<not> subs hanzomon_ten body \<and> \<not> subs (asc ''hanzomon'') (u_lower U body) \<and>
     (subs shibuya_ten body \<or> subs (asc ''shibuya'') (u_lower U body))"
  by (auto simp: is_hallel_email_def Let_def split: if_splits)

lemma parse_reservation_filter:
  "parse_reservation U body subject \<noteq> None \<Longrightarrow>
     subs shibuya body \<or> subs (asc ''shibuya'') (u_lower U body) \<or> subs (asc ''hallel'') (u_lower U body)"
  by (auto simp: parse_reservation_def Let_def split: if_splits)

text \<open>
  The location filter of the classifier reads the body only. \<^verbatim>\<open>classify_email\<close> returns
  \<^verbatim>\<open>None\<close> whenever the body names the Hanzomon store, returns an event only when the
  body names the Shibuya store, and returns \<^verbatim>\<open>None\<close> when the body names neither. The
  parser of the fast Gmail sync returns an event only when the body contains "Shibuya"
  (in Japanese or in Latin letters) or the brand name "hallel".
\<close>

lemma classifier_location_filter:
  "(subs hanzomon_ten body \<or> subs (asc ''hanzomon'') (u_lower U body)
      \<longrightarrow> classify_email U subject body = None)
   \<and> (classify_email U subject body \<noteq> None
      \<longrightarrow> subs shibuya_ten body \<or> subs (asc ''shibuya'') (u_lower U body))
   \<and> (\<not> subs shibuya_ten body \<and> \<not> subs (asc ''shibuya'') (u_lower U body)
      \<longrightarrow> classify_email U subject body = None)
   \<and> (parse_reservation U body subject \<noteq> None
      \<longrightarrow> subs shibuya body \<or> subs (asc ''shibuya'') (u_lower U body)
          \<or> subs (asc ''hallel'') (u_lower U body))"
  using is_hallel_email_location[of U subject body] parse_reservation_filter[of U body subject]
  by (auto simp: classify_email_None)

lemma extract_date_time_Some:
  assumes "extract_date_time U body = Inr (Some d)"
  shows "search (date_pattern U) body \<noteq> None \<and> search (time_pattern U) body \<noteq> None \<and>
     (\<exists>year month day start_hour start_minute end_hour end_minute.
        di_date d = fmt0 4 year @ asc ''-'' @ fmt0 2 month @ asc ''-'' @ fmt0 2 day \<and>
        di_start_time d = fmt0 2 start_hour @ asc '':'' @ fmt0 2 start_minute \<and>
        di_end_time d = fmt0 2 end_hour @ asc '':'' @ fmt0 2 end_minute)"
  using assms
  by (auto simp: extract_date_time_def bind_def Let_def split: option.splits sum.splits) blast+

lemma extract_date_time_missing:
  "search (date_pattern U) body = None \<or> search (time_pattern U) body = None \<Longrightarrow>
   extract_date_time U body = Inr None \<or> (\<exists>e. extract_date_time U body = Inl e)"
  by (auto simp: extract_date_time_def bind_def Let_def split: option.splits sum.splits)

text \<open>
  Claim C6. \<^verbatim>\<open>classify_email\<close> returns \<^verbatim>\<open>None\<close> whenever the date pattern or the time
  pattern is not found in the body, and every event it returns (a booking in particular)
  carries a non-empty date, start time and end time, formatted as
  \<^verbatim>\<open>YYYY-MM-DD\<close> and \<^verbatim>\<open>HH:MM\<close> from the numbers read.
\<close>

theorem no_partial_events:
  "(search (date_pattern U) body = None \<or> search (time_pattern U) body = None
      \<longrightarrow> classify_email U subject body = None)
   \<and> (\<forall>info. classify_email U subject body = Some info \<longrightarrow>
         ri_date info \<noteq> [] \<and> ri_start_time info \<noteq> [] \<and> ri_end_time info \<noteq> [] \<and>
         (\<exists>year month day start_hour start_minute end_hour end_minute.
            ri_date info = fmt0 4 year @ asc ''-'' @ fmt0 2 month @ asc ''-'' @ fmt0 2 day \<and>
            ri_start_time info = fmt0 2 start_hour @ asc '':'' @ fmt0 2 start_minute \<and>
            ri_end_time info = fmt0 2 end_hour @ asc '':'' @ fmt0 2 end_minute))"
proof -
  have a: "search (date_pattern U) body = None \<or> search (time_pattern U) body = None
      \<longrightarrow> classify_email U subject body = None"
    using extract_date_time_missing[of U body] by (auto simp: classify_email_None)
  have b: "ri_date info \<noteq> [] \<and> ri_start_time info \<noteq> [] \<and> ri_end_time info \<noteq> [] \<and>
         (\<exists>year month day start_hour start_minute end_hour end_minute.
            ri_date info = fmt0 4 year @ asc ''-'' @ fmt0 2 month @ asc ''-'' @ fmt0 2 day \<and>
            ri_start_time info = fmt0 2 start_hour @ asc '':'' @ fmt0 2 start_minute \<and>
            ri_end_time info = fmt0 2 end_hour @ asc '':'' @ fmt0 2 end_minute)"
    if "classify_email U subject body = Some info" for info
  proof -
    from that obtain a d where d: "extract_date_time U body = Inr (Some d)"
      and i: "ri_date info = di_date d" "ri_start_time info = di_start_time d"
             "ri_end_time info = di_end_time d"
      by (auto simp: classify_email_Some)
    from extract_date_time_Some[OF d] i show ?thesis by (auto simp: asc_def)
  qed
  from a b show ?thesis by blast
qed

section \<open>The classifier on example mails\<close>

lemmas text_defs = asc_def hanzomon_ten_def shibuya_ten_def shibuya_def kyanseru_def yoyaku_def
  arigatou_def uketamawari_def fumei_def nen_def gatsu_def nichi_def sama_def
  booking_keywords_def cancellation_keywords_def ex_subject_def ex_body_def ex_hanzomon_body_def
  ex_cancel_body_def ex_no_time_body_def ex_brand_only_body_def

lemmas regex_defs = search_def findall_def seq_def digits_def isd_def basic_latin_def isspace_def
  mgroup_def groups_def date_pattern_def time_pattern_def customer_pattern_def studio_pattern_def

lemmas number_defs = py_int_def bind_def fmt0_def dec.simps zfill_def item_def

lemma ex_cancel_date_time: "extract_date_time basic_latin ex_cancel_body = Inr (Some ex_date_info)"
  by (simp add: extract_date_time_def ex_date_info_def Let_def text_defs regex_defs number_defs)

lemma ex_body_date_time: "extract_date_time basic_latin ex_body = Inr (Some ex_date_info)"
  by (simp add: extract_date_time_def ex_date_info_def Let_def text_defs regex_defs number_defs)

lemma ex_body_hallel: "is_hallel_email basic_latin ex_subject ex_body"
  by (simp add: is_hallel_email_def Let_def text_defs basic_latin_def)

lemma ex_body_action: "determine_action_type basic_latin ex_body = Some Booking"
  by (simp add: determine_action_type_def Let_def text_defs basic_latin_def)

lemma ex_body_classified:
  "classify_email basic_latin ex_subject ex_body =
     Some \<lparr>ri_action_type = Booking, ri_date = asc ''2025-11-02'', ri_start_time = asc ''10:00'',
            ri_end_time = asc ''11:30'', ri_customer_name = extract_customer_name ex_body,
            ri_studio = extract_studio_info basic_latin ex_body, ri_duration_minutes = 90,
            ri_confidence = calculate_confidence basic_latin Booking ex_body,
            ri_raw_text = ex_body\<rparr>"
  using ex_body_hallel ex_body_action ex_body_date_time
  by (simp add: classify_email_Some ex_date_info_def)

text \<open>
  Witness for C3: a Shibuya mail whose body holds both a booking keyword and a
  cancellation keyword is classified as a cancellation.
\<close>

theorem cancellation_keyword_wins_witness:
  "is_hallel_email basic_latin ex_subject ex_cancel_body
   \<and> cancellation_keywords ! 2 \<in> set cancellation_keywords
   \<and> subs (cancellation_keywords ! 2) ex_cancel_body
   \<and> subs (booking_keywords ! 3) ex_cancel_body
   \<and> determine_action_type basic_latin ex_cancel_body = Some Cancellation
   \<and> map_option ri_action_type (classify_email basic_latin ex_subject ex_cancel_body)
       = Some Cancellation"
proof -
  have h1: "is_hallel_email basic_latin ex_subject ex_cancel_body"
    by (simp add: is_hallel_email_def Let_def text_defs basic_latin_def)
  have h2: "cancellation_keywords ! 2 \<in> set cancellation_keywords"
    by (simp add: cancellation_keywords_def)
  have h3: "subs (cancellation_keywords ! 2) ex_cancel_body"
    by (simp add: text_defs)
  have b: "subs (booking_keywords ! 3) ex_cancel_body"
    by (simp add: text_defs)
  note c = cancellation_keyword_wins[OF h1 h2 h3]
  from c ex_cancel_date_time obtain info
    where i: "classify_email basic_latin ex_subject ex_cancel_body = Some info" by blast
  with c have "ri_action_type info = Cancellation" by blast
  with i have m: "map_option ri_action_type (classify_email basic_latin ex_subject ex_cancel_body)
       = Some Cancellation" by simp
  from h1 h2 h3 b c m show ?thesis by blast
qed

text \<open>
  Witness for C6: a cancellation mail with a date and no time range is classified as
  nothing, and the event of the booking mail carries its date and both times.
\<close>

theorem no_partial_events_witness:
  "search (time_pattern basic_latin) ex_no_time_body = None
   \<and> is_hallel_email basic_latin ex_subject ex_no_time_body
   \<and> determine_action_type basic_latin ex_no_time_body = Some Cancellation
   \<and> classify_email basic_latin ex_subject ex_no_time_body = None
   \<and> map_option ri_action_type (classify_email basic_latin ex_subject ex_body) = Some Booking
   \<and> map_option ri_date (classify_email basic_latin ex_subject ex_body) = Some (asc ''2025-11-02'')
   \<and> map_option ri_start_time (classify_email basic_latin ex_subject ex_body) = Some (asc ''10:00'')
   \<and> map_option ri_end_time (classify_email basic_latin ex_subject ex_body) = Some (asc ''11:30'')"
proof -
  have t: "search (time_pattern basic_latin) ex_no_time_body = None"
    by (simp add: text_defs regex_defs)
  have h: "is_hallel_email basic_latin ex_subject ex_no_time_body"
    by (simp add: is_hallel_email_def Let_def text_defs basic_latin_def)
  have a: "determine_action_type basic_latin ex_no_time_body = Some Cancellation"
    by (simp add: determine_action_type_def Let_def text_defs)
  from no_partial_events[of basic_latin ex_no_time_body ex_subject] t
  have n: "classify_email basic_latin ex_subject ex_no_time_body = None" by blast
  from t h a n show ?thesis by (simp add: ex_body_classified)
qed

text \<open>
  The classifier rejects the mail naming the Hanzomon store and the mail naming no store
  and accepts the mail naming the Shibuya store; the parser of the fast Gmail sync accepts
  the mail naming the Hanzomon store, whose body contains the brand name.
\<close>

lemma classifier_location_examples:
  "subs hanzomon_ten ex_hanzomon_body
   \<and> classify_email basic_latin ex_subject ex_hanzomon_body = None
   \<and> classify_email basic_latin ex_subject ex_body \<noteq> None
   \<and> subs shibuya_ten ex_body
   \<and> \<not> subs shibuya_ten ex_brand_only_body
   \<and> \<not> subs (asc ''shibuya'') (u_lower basic_latin ex_brand_only_body)
   \<and> classify_email basic_latin ex_subject ex_brand_only_body = None
   \<and> parse_reservation basic_latin ex_hanzomon_body ex_subject \<noteq> None
   \<and> subs (asc ''hallel'') (u_lower basic_latin ex_hanzomon_body)"
proof -
  have a: "subs hanzomon_ten ex_hanzomon_body" by (simp add: text_defs)
  have b: "\<not> subs shibuya_ten ex_brand_only_body"
    "\<not> subs (asc ''shibuya'') (u_lower basic_latin ex_brand_only_body)"
    by (simp_all add: text_defs basic_latin_def)
  have c: "classify_email basic_latin ex_subject ex_body \<noteq> None"
    by (simp add: ex_body_classified)
  have p: "parse_reservation basic_latin ex_hanzomon_body ex_subject = Some ex_hanzomon_reservation"
    by (simp add: parse_reservation_def ex_hanzomon_reservation_def Let_def text_defs regex_defs
        number_defs fast_date_patterns_def fast_time_patterns_def fast_customer_patterns_def
        slash_or_dash_def range_separator_def not_newline_def name_label_separator_def strip_def)
  note f1 = classifier_location_filter[of ex_hanzomon_body basic_latin ex_subject]
  note f2 = classifier_location_filter[of ex_body basic_latin ex_subject]
  note f3 = classifier_location_filter[of ex_brand_only_body basic_latin ex_subject]
  from f1 a have r1: "classify_email basic_latin ex_subject ex_hanzomon_body = None" by blast
  from f2 c have "subs shibuya_ten ex_body \<or> subs (asc ''shibuya'') (u_lower basic_latin ex_body)"
    by blast
  then have r2: "subs shibuya_ten ex_body" by (simp add: text_defs basic_latin_def)
  from f3 b have r3: "classify_email basic_latin ex_subject ex_brand_only_body = None" by blast
  from f1 p have "subs shibuya ex_hanzomon_body \<or> subs (asc ''shibuya'') (u_lower basic_latin ex_hanzomon_body)
          \<or> subs (asc ''hallel'') (u_lower basic_latin ex_hanzomon_body)" by simp
  then have r4: "subs (asc ''hallel'') (u_lower basic_latin ex_hanzomon_body)"
    by (simp add: text_defs basic_latin_def)
  from a r1 c r2 b r3 p r4 show ?thesis by simp
qed

text \<open>
  A store marker in the subject is not read: the mail whose subject names the Hanzomon
  store and whose body names the Shibuya store is classified as a booking.
\<close>

lemma classifier_reads_body_only:
  "subs hanzomon_ten ex_hanzomon_subject
   \<and> map_option ri_action_type (classify_email basic_latin ex_hanzomon_subject ex_body) = Some Booking"
proof -
  have s: "subs hanzomon_ten ex_hanzomon_subject"
    by (simp add: ex_hanzomon_subject_def text_defs)
  have h: "is_hallel_email basic_latin ex_hanzomon_subject ex_body"
    by (simp add: is_hallel_email_def Let_def ex_hanzomon_subject_def text_defs basic_latin_def)
  from h ex_body_action ex_body_date_time
  have "\<exists>info. classify_email basic_latin ex_hanzomon_subject ex_body = Some info \<and>
          ri_action_type info = Booking"
    by (simp add: classify_email_Some)
  with s show ?thesis by auto
qed

text \<open>
  Claim C4 at a failing input. The mail carries the brand marker and names the Hanzomon
  store, not the Shibuya store. \<^verbatim>\<open>classify_email\<close> returns \<^verbatim>\<open>None\<close> for it, as the claim
  requires of every entry point. \<^verbatim>\<open>FastGmailSync.parse_reservation\<close>, whose filter is
  meant to keep the mails of the Shibuya store, lets it through on the brand name alone
  and returns an event, which the Gmail sync adds to the store.
\<close>

theorem fast_sync_accepts_hanzomon:
  "subs (asc ''HALLEL'') ex_hanzomon_body
   \<and> subs hanzomon_ten ex_hanzomon_body
   \<and> \<not> subs shibuya_ten ex_hanzomon_body
   \<and> classify_email basic_latin ex_subject ex_hanzomon_body = None
   \<and> parse_reservation basic_latin ex_hanzomon_body ex_subject = Some ex_hanzomon_reservation
   \<and> snd (sync_gmail_step ex_now ex_state (synced_reservation ex_subject ex_hanzomon_reservation))
       = Added"
proof -
  have a: "subs (asc ''HALLEL'') ex_hanzomon_body" "subs hanzomon_ten ex_hanzomon_body"
    "\<not> subs shibuya_ten ex_hanzomon_body"
    by (simp_all add: text_defs)
  have c: "classify_email basic_latin ex_subject ex_hanzomon_body = None"
    using a(2) is_hallel_email_location[of basic_latin ex_subject ex_hanzomon_body]
    by (auto simp: classify_email_None)
  have p: "parse_reservation basic_latin ex_hanzomon_body ex_subject = Some ex_hanzomon_reservation"
    by (simp add: parse_reservation_def ex_hanzomon_reservation_def Let_def text_defs regex_defs
        number_defs fast_date_patterns_def fast_time_patterns_def fast_customer_patterns_def
        slash_or_dash_def range_separator_def not_newline_def name_label_separator_def strip_def)
  have s: "snd (sync_gmail_step ex_now ex_state (synced_reservation ex_subject ex_hanzomon_reservation))
       = Added"
    by (simp add: sync_gmail_step_def Let_def synced_reservation_def ex_hanzomon_reservation_def
          ex_state_def initial_db_def get_or_def slots_on_def ensure_date_def asc_def)
  from a c p s show ?thesis by simp
qed

section \<open>The confidence score\<close>

text \<open>
  The doubles the scoring can reach, each computed by one rounding: the literals, every
  addition of an increment to a value reached before, and with them the score of every
  number of matched keywords (at most five) and of further signals (at most three).
\<close>

lemma flt_values:
  "flt (5 / 10) = 1 / 2" "flt (1 / 2) = 1 / 2" "flt 1 = 1"
  "flt (1 / 10) = 3602879701896397 / 36028797018963968"
  "flt (15 / 100) = 5404319552844595 / 36028797018963968"
  "flt (3 / 20) = 5404319552844595 / 36028797018963968"
  "flt (7 / 10) = 3152519739159347 / 4503599627370496"
  by code_simp+

lemma fadd_steps:
  "fadd (1 / 2) (3602879701896397 / 36028797018963968) = 5404319552844595 / 9007199254740992"
  "fadd (5404319552844595 / 9007199254740992) (3602879701896397 / 36028797018963968) = 3152519739159347 / 4503599627370496"
  "fadd (3152519739159347 / 4503599627370496) (3602879701896397 / 36028797018963968) = 7205759403792793 / 9007199254740992"
  "fadd (7205759403792793 / 9007199254740992) (3602879701896397 / 36028797018963968) = 2026619832316723 / 2251799813685248"
  "fadd (2026619832316723 / 2251799813685248) (3602879701896397 / 36028797018963968) = 9007199254740991 / 9007199254740992"
  "fadd (9007199254740991 / 9007199254740992) (3602879701896397 / 36028797018963968) = 4953959590107545 / 4503599627370496"
  "fadd (4953959590107545 / 4503599627370496) (3602879701896397 / 36028797018963968) = 5404319552844595 / 4503599627370496"
  "fadd (5404319552844595 / 4503599627370496) (3602879701896397 / 36028797018963968) = 5854679515581645 / 4503599627370496"
  "fadd (1 / 2) (5404319552844595 / 36028797018963968) = 5854679515581645 / 9007199254740992"
  "fadd (5854679515581645 / 9007199254740992) (3602879701896397 / 36028797018963968) = 3 / 4"
  "fadd (3 / 4) (3602879701896397 / 36028797018963968) = 7656119366529843 / 9007199254740992"
  "fadd (7656119366529843 / 9007199254740992) (3602879701896397 / 36028797018963968) = 4278419646001971 / 4503599627370496"
  "fadd (5854679515581645 / 9007199254740992) (5404319552844595 / 36028797018963968) = 3602879701896397 / 4503599627370496"
  "fadd (3602879701896397 / 4503599627370496) (3602879701896397 / 36028797018963968) = 8106479329266893 / 9007199254740992"
  "fadd (8106479329266893 / 9007199254740992) (3602879701896397 / 36028797018963968) = 1"
  "fadd (1) (3602879701896397 / 36028797018963968) = 2476979795053773 / 2251799813685248"
  "fadd (3602879701896397 / 4503599627370496) (5404319552844595 / 36028797018963968) = 8556839292003943 / 9007199254740992"
  "fadd (8556839292003943 / 9007199254740992) (3602879701896397 / 36028797018963968) = 4728779608739021 / 4503599627370496"
  "fadd (4728779608739021 / 4503599627370496) (3602879701896397 / 36028797018963968) = 5179139571476071 / 4503599627370496"
  "fadd (5179139571476071 / 4503599627370496) (3602879701896397 / 36028797018963968) = 5629499534213121 / 4503599627370496"
  "fadd (8556839292003943 / 9007199254740992) (5404319552844595 / 36028797018963968) = 2476979795053773 / 2251799813685248"
  "fadd (2476979795053773 / 2251799813685248) (3602879701896397 / 36028797018963968) = 1351079888211149 / 1125899906842624"
  "fadd (1351079888211149 / 1125899906842624) (3602879701896397 / 36028797018963968) = 2927339757790823 / 2251799813685248"
  "fadd (2927339757790823 / 2251799813685248) (3602879701896397 / 36028797018963968) = 788129934789837 / 562949953421312"
  "fadd (2476979795053773 / 2251799813685248) (5404319552844595 / 36028797018963968) = 5 / 4"
  "fadd (5 / 4) (3602879701896397 / 36028797018963968) = 3039929748475085 / 2251799813685248"
  "fadd (3039929748475085 / 2251799813685248) (3602879701896397 / 36028797018963968) = 1632554864921805 / 1125899906842624"
  "fadd (1632554864921805 / 1125899906842624) (3602879701896397 / 36028797018963968) = 3490289711212135 / 2251799813685248"
  by code_simp+

lemma signals_score_values:
  "signals_score Booking 0 0 = 1 / 2"
  "signals_score Booking 0 (Suc 0) = 5404319552844595 / 9007199254740992"
  "signals_score Booking 0 2 = 3152519739159347 / 4503599627370496"
  "signals_score Booking 0 3 = 7205759403792793 / 9007199254740992"
  "signals_score Booking (Suc 0) 0 = 5404319552844595 / 9007199254740992"
  "signals_score Booking (Suc 0) (Suc 0) = 3152519739159347 / 4503599627370496"
  "signals_score Booking (Suc 0) 2 = 7205759403792793 / 9007199254740992"
  "signals_score Booking (Suc 0) 3 = 2026619832316723 / 2251799813685248"
  "signals_score Booking 2 0 = 3152519739159347 / 4503599627370496"
  "signals_score Booking 2 (Suc 0) = 7205759403792793 / 9007199254740992"
  "signals_score Booking 2 2 = 2026619832316723 / 2251799813685248"
  "signals_score Booking 2 3 = 9007199254740991 / 9007199254740992"
  "signals_score Booking 3 0 = 7205759403792793 / 9007199254740992"
  "signals_score Booking 3 (Suc 0) = 2026619832316723 / 2251799813685248"
  "signals_score Booking 3 2 = 9007199254740991 / 9007199254740992"
  "signals_score Booking 3 3 = 1"
  "signals_score Booking 4 0 = 2026619832316723 / 2251799813685248"
  "signals_score Booking 4 (Suc 0) = 9007199254740991 / 9007199254740992"
  "signals_score Booking 4 2 = 1"
  "signals_score Booking 4 3 = 1"
  "signals_score Booking 5 0 = 9007199254740991 / 9007199254740992"
  "signals_score Booking 5 (Suc 0) = 1"
  "signals_score Booking 5 2 = 1"
  "signals_score Booking 5 3 = 1"
  "signals_score Cancellation 0 0 = 1 / 2"
  "signals_score Cancellation 0 (Suc 0) = 5404319552844595 / 9007199254740992"
  "signals_score Cancellation 0 2 = 3152519739159347 / 4503599627370496"
  "signals_score Cancellation 0 3 = 7205759403792793 / 9007199254740992"
  "signals_score Cancellation (Suc 0) 0 = 5854679515581645 / 9007199254740992"
  "signals_score Cancellation (Suc 0) (Suc 0) = 3 / 4"
  "signals_score Cancellation (Suc 0) 2 = 7656119366529843 / 9007199254740992"
  "signals_score Cancellation (Suc 0) 3 = 4278419646001971 / 4503599627370496"
  "signals_score Cancellation 2 0 = 3602879701896397 / 4503599627370496"
  "signals_score Cancellation 2 (Suc 0) = 8106479329266893 / 9007199254740992"
  "signals_score Cancellation 2 2 = 1"
  "signals_score Cancellation 2 3 = 1"
  "signals_score Cancellation 3 0 = 8556839292003943 / 9007199254740992"
  "signals_score Cancellation 3 (Suc 0) = 1"
  "signals_score Cancellation 3 2 = 1"
  "signals_score Cancellation 3 3 = 1"
  "signals_score Cancellation 4 0 = 1"
  "signals_score Cancellation 4 (Suc 0) = 1"
  "signals_score Cancellation 4 2 = 1"
  "signals_score Cancellation 4 3 = 1"
  "signals_score Cancellation 5 0 = 1"
  "signals_score Cancellation 5 (Suc 0) = 1"
  "signals_score Cancellation 5 2 = 1"
  "signals_score Cancellation 5 3 = 1"
  by (simp_all add: signals_score_def add_times_def increment_of_def flt_values fadd_steps
        eval_nat_numeral)

text \<open>
  The loop over the keywords adds the increment once for each keyword found in the body,
  and the three tests that follow add 0.1 once for each signal present.
\<close>

lemma foldl_keywords:
  "foldl (\<lambda>c keyword. if P keyword then fadd c d else c) c kws =
     add_times (length (filter P kws)) d c"
proof (induction kws arbitrary: c)
  case Nil
  then show ?case by (simp add: add_times_def)
next
  case (Cons a kws)
  show ?case
    using Cons.IH[of c] Cons.IH[of "fadd c d"] funpow_swap1[of "\<lambda>x. fadd x d" "length (filter P kws)" c]
    by (simp add: add_times_def)
qed

lemma add_signals:
  "(if h then fadd (if t then fadd (if dt then fadd c d else c) d
                     else (if dt then fadd c d else c)) d
    else (if t then fadd (if dt then fadd c d else c) d else (if dt then fadd c d else c))) =
   add_times (length (filter id [dt, t, h])) d c"
  by (simp add: add_times_def)

lemma calculate_confidence_score:
  "calculate_confidence U a body =
     signals_score a (length (matched_keywords a body))
       (length (filter id (structure_signals U body)))"
  by (cases a)
     (simp_all only: calculate_confidence_def signals_score_def matched_keywords_def
        structure_signals_def keywords_of_def increment_of_def Let_def foldl_keywords add_signals
        action.case)

lemma matched_keywords_le: "length (matched_keywords a body) \<le> 5"
proof -
  have "length (matched_keywords a body) \<le> length (keywords_of a)"
    by (simp add: matched_keywords_def)
  also have "length (keywords_of a) = 5"
    by (cases a) (simp_all add: keywords_of_def booking_keywords_def cancellation_keywords_def)
  finally show ?thesis .
qed

lemma structure_signals_le: "length (filter id (structure_signals U body)) \<le> 3"
proof -
  have "length (filter id (structure_signals U body)) \<le> length (structure_signals U body)"
    by (rule length_filter_le)
  then show ?thesis by (simp add: structure_signals_def)
qed

lemma le5_cases: "k \<le> 5 \<Longrightarrow> k = 0 \<or> k = Suc 0 \<or> k = 2 \<or> k = 3 \<or> k = 4 \<or> k = (5::nat)"
  by arith

lemma le3_cases: "j \<le> 3 \<Longrightarrow> j = 0 \<or> j = Suc 0 \<or> j = 2 \<or> j = (3::nat)"
  by arith

lemma signals_score_range:
  assumes "k \<le> 5" and "j \<le> 3"
  shows "0 \<le> signals_score a k j \<and> signals_score a k j \<le> 1 \<and>
         \<bar>signals_score a k j - exact_score a k j\<bar> \<le> 1 / 10 ^ 15"
  using le5_cases[OF assms(1)] le3_cases[OF assms(2)]
  by (cases a; elim disjE; simp add: signals_score_values exact_score_def exact_increment_def)

lemma signals_score_step:
  assumes "k \<le> 5" and "j \<le> 3"
  shows "(k < 5 \<longrightarrow> signals_score a k j \<le> signals_score a (Suc k) j) \<and>
         (j < 3 \<longrightarrow> signals_score a k j \<le> signals_score a k (Suc j))"
  using le5_cases[OF assms(1)] le3_cases[OF assms(2)]
  by (cases a; elim disjE; simp add: signals_score_values numeral_2_eq_2[symmetric])

lemma signals_score_mono:
  assumes "k \<le> k'" and "k' \<le> 5" and "j \<le> j'" and "j' \<le> 3"
  shows "signals_score a k j \<le> signals_score a k' j'"
proof -
  have j: "j \<le> 3" using assms(3,4) by simp
  have "signals_score a k j \<le> signals_score a k' j"
    using assms(1)
  proof (induction k' rule: dec_induct)
    case base
    show ?case by simp
  next
    case (step n)
    from step.hyps(2) assms(2) have "n \<le> 5" "n < 5" by simp_all
    with signals_score_step[of n j a] j
    have "signals_score a n j \<le> signals_score a (Suc n) j" by blast
    with step.IH show ?case by simp
  qed
  also have "signals_score a k' j \<le> signals_score a k' j'"
    using assms(3)
  proof (induction j' rule: dec_induct)
    case base
    show ?case by simp
  next
    case (step n)
    from step.hyps(2) assms(4) have "n \<le> 3" "n < 3" by simp_all
    with signals_score_step[of k' n a] assms(2)
    have "signals_score a k' n \<le> signals_score a k' (Suc n)" by blast
    with step.IH show ?case by simp
  qed
  finally show ?thesis .
qed

lemma length_filter_mono:
  "(\<And>x. x \<in> set xs \<Longrightarrow> P x \<Longrightarrow> Q x) \<Longrightarrow> length (filter P xs) \<le> length (filter Q xs)"
  by (induction xs) auto

lemma three_signals_mono:
  "(a \<longrightarrow> a') \<Longrightarrow> (b \<longrightarrow> b') \<Longrightarrow> (c \<longrightarrow> c') \<Longrightarrow>
   length (filter id [a, b, c]) \<le> length (filter id [a', b', c'])"
  by (cases a; cases b; cases c; cases a'; cases b'; cases c'; simp)

text \<open>
  Claim C5. The confidence is 0.5 plus the action's increment (0.1 for a booking, 0.15 for
  a cancellation) for each keyword of the action found in the body, each counted on its
  own, plus 0.1 for the date pattern, 0.1 for the time pattern and 0.1 for the literal
  HALLEL, clamped to 1.0, the sums being the double-precision additions the code performs
  in that order; the result differs by at most 1e-15 from the same sum in exact arithmetic,
  lies in [0,1], and does not decrease when the set of matched signals grows.
\<close>

theorem confidence_score:
  "calculate_confidence U a body =
     signals_score a (length (matched_keywords a body))
       (length (filter id (structure_signals U body)))
   \<and> \<bar>calculate_confidence U a body -
        exact_score a (length (matched_keywords a body))
          (length (filter id (structure_signals U body)))\<bar> \<le> 1 / 10 ^ 15
   \<and> 0 \<le> calculate_confidence U a body
   \<and> calculate_confidence U a body \<le> 1
   \<and> ((\<forall>keyword \<in> set (keywords_of a). subs keyword body \<longrightarrow> subs keyword body')
        \<and> (search (date_pattern U) body \<noteq> None \<longrightarrow> search (date_pattern U) body' \<noteq> None)
        \<and> (search (time_pattern U) body \<noteq> None \<longrightarrow> search (time_pattern U) body' \<noteq> None)
        \<and> (subs (asc ''HALLEL'') body \<longrightarrow> subs (asc ''HALLEL'') body')
      \<longrightarrow> calculate_confidence U a body \<le> calculate_confidence U a body')"
proof -
  let ?k = "length (matched_keywords a body)"
  let ?j = "length (filter id (structure_signals U body))"
  have k: "?k \<le> 5" by (rule matched_keywords_le)
  have j: "?j \<le> 3" by (rule structure_signals_le)
  note r = signals_score_range[OF k j, of a]
  have m: "calculate_confidence U a body \<le> calculate_confidence U a body'"
    if kw: "\<forall>keyword \<in> set (keywords_of a). subs keyword body \<longrightarrow> subs keyword body'"
      and d: "search (date_pattern U) body \<noteq> None \<longrightarrow> search (date_pattern U) body' \<noteq> None"
      and t: "search (time_pattern U) body \<noteq> None \<longrightarrow> search (time_pattern U) body' \<noteq> None"
      and h: "subs (asc ''HALLEL'') body \<longrightarrow> subs (asc ''HALLEL'') body'"
  proof -
    have k': "?k \<le> length (matched_keywords a body')"
      unfolding matched_keywords_def using kw by (intro length_filter_mono) blast
    have j': "?j \<le> length (filter id (structure_signals U body'))"
      unfolding structure_signals_def using d t h by (rule three_signals_mono)
    show ?thesis
      unfolding calculate_confidence_score
      by (rule signals_score_mono[OF k' matched_keywords_le j' structure_signals_le])
  qed
  from r m show ?thesis unfolding calculate_confidence_score by blast
qed

section \<open>The confidence threshold of the Gmail parser\<close>

lemma classified_Cons:
  "classified U (m # messages) =
     (case classify_message U m of None \<Rightarrow> classified U messages
      | Some c \<Rightarrow> c # classified U messages)"
  by (simp add: classified_def List.map_filter_simps split: option.splits)

lemma fetch_loop_classified:
  "fetch_loop U labeler messages =
     (map data_of (filter passes_threshold (classified U messages)),
      if labeler then map label_of (filter passes_threshold (classified U messages)) else [])"
proof (induction messages)
  case Nil
  show ?case by (simp add: classified_def List.map_filter_simps)
next
  case (Cons m messages)
  obtain message_id content where m: "m = (message_id, content)" by (cases m)
  show ?case
  proof (cases content)
    case None
    then show ?thesis
      using Cons.IH by (simp add: m classified_Cons classify_message_def)
  next
    case (Some email_content)
    show ?thesis
    proof (cases "classify_email U (ec_subject email_content) (ec_body email_content)")
      case None
      then show ?thesis
        using Cons.IH Some by (simp add: m classified_Cons classify_message_def)
    next
      case (Some reservation_info)
      with \<open>content = Some email_content\<close> show ?thesis
        using Cons.IH
        by (simp add: m classified_Cons classify_message_def passes_threshold_def data_of_def
              label_of_def)
    qed
  qed
qed

text \<open>
  Claim C10. \<^verbatim>\<open>fetch_and_parse_reservations\<close> returns, in order, exactly the classified
  events of the first 20 messages whose confidence is strictly greater than 0.7, and labels
  exactly those (when a labeler is set up); so every returned event has confidence above
  0.7 and a classified event with confidence at most 0.7 is in no output.
\<close>

theorem confidence_gate:
  "fst (fetch_and_parse_reservations U labeler messages) =
     map data_of (filter passes_threshold (classified U (take 20 messages)))
   \<and> snd (fetch_and_parse_reservations U labeler messages) =
     (if labeler then map label_of (filter passes_threshold (classified U (take 20 messages)))
      else [])
   \<and> (\<forall>reservation_data \<in> set (fst (fetch_and_parse_reservations U labeler messages)).
        rd_confidence reservation_data > flt (7 / 10))
   \<and> (\<forall>c \<in> set (classified U (take 20 messages)).
        ri_confidence (snd (snd c)) \<le> flt (7 / 10) \<longrightarrow>
        c \<notin> set (filter passes_threshold (classified U (take 20 messages))))"
  by (auto simp: fetch_and_parse_reservations_def fetch_loop_classified passes_threshold_def
        data_of_def reservation_data_of_def)

section \<open>Scores of the example mails\<close>

lemma ex_body_signals:
  "matched_keywords Booking ex_body = [booking_keywords ! 3]"
  "structure_signals basic_latin ex_body = [True, True, True]"
  by (simp_all add: matched_keywords_def keywords_of_def structure_signals_def text_defs regex_defs)

lemma ex_no_time_signals:
  "matched_keywords Booking ex_no_time_body = []"
  "structure_signals basic_latin ex_no_time_body = [True, False, True]"
  by (simp_all add: matched_keywords_def keywords_of_def structure_signals_def text_defs regex_defs)

lemma ex_low_signals:
  "matched_keywords Cancellation ex_low_body = []"
  "structure_signals basic_latin ex_low_body = [True, True, False]"
  by (simp_all add: matched_keywords_def keywords_of_def structure_signals_def text_defs regex_defs
        ex_low_body_def)

lemma ex_body_confidence:
  "calculate_confidence basic_latin Booking ex_body = 2026619832316723 / 2251799813685248"
  by (simp add: calculate_confidence_score ex_body_signals signals_score_values numeral_2_eq_2[symmetric])

lemma ex_low_confidence:
  "calculate_confidence basic_latin Cancellation ex_low_body = flt (7 / 10)"
  by (simp add: calculate_confidence_score ex_low_signals signals_score_values flt_values numeral_2_eq_2[symmetric])

lemma ex_low_classified:
  "classify_email basic_latin ex_subject ex_low_body =
     Some \<lparr>ri_action_type = Cancellation, ri_date = asc ''2025-11-02'', ri_start_time = asc ''10:00'',
            ri_end_time = asc ''11:30'', ri_customer_name = fumei, ri_studio = fumei,
            ri_duration_minutes = 90, ri_confidence = flt (7 / 10), ri_raw_text = ex_low_body\<rparr>"
proof -
  have h: "is_hallel_email basic_latin ex_subject ex_low_body"
    by (simp add: is_hallel_email_def Let_def text_defs ex_low_body_def basic_latin_def)
  have a: "determine_action_type basic_latin ex_low_body = Some Cancellation"
    by (simp add: determine_action_type_def Let_def text_defs ex_low_body_def basic_latin_def)
  have d: "extract_date_time basic_latin ex_low_body = Inr (Some ex_date_info)"
    by (simp add: extract_date_time_def ex_date_info_def Let_def text_defs ex_low_body_def
          regex_defs number_defs)
  have c: "extract_customer_name ex_low_body = fumei"
    by (simp add: extract_customer_name_def text_defs ex_low_body_def regex_defs strip_def)
  have s: "extract_studio_info basic_latin ex_low_body = fumei"
    by (simp add: extract_studio_info_def text_defs ex_low_body_def regex_defs strip_def)
  show ?thesis
    using h a d by (simp add: classify_email_Some ex_date_info_def c s ex_low_confidence)
qed

lemma ex_body_customer: "extract_customer_name ex_body = asc ''Tanaka''"
  by (simp add: extract_customer_name_def text_defs regex_defs strip_def)

text \<open>
  Witness for C5: the mail without a time range matches the date pattern and the brand
  literal (score 0.5 + 0.1 + 0.1, the double 0.7); the booking mail matches one keyword and
  all three signals (the double next below 0.9), and its score is the larger.
\<close>

theorem confidence_score_witness:
  "matched_keywords Booking ex_no_time_body = []
   \<and> structure_signals basic_latin ex_no_time_body = [True, False, True]
   \<and> matched_keywords Booking ex_body = [booking_keywords ! 3]
   \<and> structure_signals basic_latin ex_body = [True, True, True]
   \<and> calculate_confidence basic_latin Booking ex_no_time_body = flt (7 / 10)
   \<and> calculate_confidence basic_latin Booking ex_body = 2026619832316723 / 2251799813685248
   \<and> \<bar>calculate_confidence basic_latin Booking ex_body - 9 / 10\<bar> \<le> 1 / 10 ^ 15
   \<and> calculate_confidence basic_latin Booking ex_no_time_body
       \<le> calculate_confidence basic_latin Booking ex_body"
proof -
  note c = confidence_score[of basic_latin Booking ex_no_time_body ex_body]
  note c' = confidence_score[of basic_latin Booking ex_body ex_body]
  have v1: "calculate_confidence basic_latin Booking ex_no_time_body = flt (7 / 10)"
    using c by (simp add: ex_no_time_signals signals_score_values flt_values numeral_2_eq_2[symmetric])
  have v2: "calculate_confidence basic_latin Booking ex_body = 2026619832316723 / 2251799813685248"
    using c' by (simp add: ex_body_signals signals_score_values numeral_2_eq_2[symmetric])
  have e: "exact_score Booking (length (matched_keywords Booking ex_body))
             (length (filter id (structure_signals basic_latin ex_body))) = 9 / 10"
    by (simp add: ex_body_signals exact_score_def exact_increment_def)
  have x: "\<bar>calculate_confidence basic_latin Booking ex_body - 9 / 10\<bar> \<le> 1 / 10 ^ 15"
    using c' unfolding e by blast
  have kw: "\<forall>keyword \<in> set (keywords_of Booking).
              subs keyword ex_no_time_body \<longrightarrow> subs keyword ex_body"
    using ex_no_time_signals(1) by (simp add: matched_keywords_def filter_empty_conv)
  have d: "search (date_pattern basic_latin) ex_no_time_body \<noteq> None \<longrightarrow>
           search (date_pattern basic_latin) ex_body \<noteq> None"
    and t: "search (time_pattern basic_latin) ex_no_time_body \<noteq> None \<longrightarrow>
           search (time_pattern basic_latin) ex_body \<noteq> None"
    and h: "subs (asc ''HALLEL'') ex_no_time_body \<longrightarrow> subs (asc ''HALLEL'') ex_body"
    using ex_no_time_signals(2) ex_body_signals(2) by (simp_all add: structure_signals_def)
  from c kw d t h
  have m: "calculate_confidence basic_latin Booking ex_no_time_body
       \<le> calculate_confidence basic_latin Booking ex_body" by blast
  from ex_no_time_signals ex_body_signals v1 v2 x m show ?thesis by blast
qed

lemma ex_classified:
  "classified basic_latin (take 20 ex_messages) =
     [(asc ''m1'', ex_mail ex_body, the (classify_email basic_latin ex_subject ex_body)),
      (asc ''m2'', ex_mail ex_low_body, the (classify_email basic_latin ex_subject ex_low_body))]"
  by (simp add: classified_def List.map_filter_simps classify_message_def ex_messages_def
        ex_mail_def ex_body_classified ex_low_classified)

text \<open>
  Witness for C10: of three messages, the booking mail (confidence just below 0.9) is
  returned and labelled, the mail whose confidence is exactly the double 0.7 is dropped,
  and the message without content is skipped.
\<close>

theorem confidence_gate_witness:
  "map rd_message_id (fst (fetch_and_parse_reservations basic_latin True ex_messages)) = [asc ''m1'']
   \<and> map rd_confidence (fst (fetch_and_parse_reservations basic_latin True ex_messages))
       = [2026619832316723 / 2251799813685248]
   \<and> snd (fetch_and_parse_reservations basic_latin True ex_messages)
       = [(asc ''m1'', Booking, asc ''Tanaka'')]
   \<and> snd (fetch_and_parse_reservations basic_latin False ex_messages) = []
   \<and> map_option ri_confidence (classify_email basic_latin ex_subject ex_low_body)
       = Some (flt (7 / 10))"
proof -
  note g = confidence_gate[of basic_latin True ex_messages]
  note g' = confidence_gate[of basic_latin False ex_messages]
  have f: "filter passes_threshold (classified basic_latin (take 20 ex_messages)) =
      [(asc ''m1'', ex_mail ex_body, the (classify_email basic_latin ex_subject ex_body))]"
    by (simp add: ex_classified passes_threshold_def ex_body_classified ex_low_classified
          ex_body_confidence flt_values)
  have a: "map rd_message_id (fst (fetch_and_parse_reservations basic_latin True ex_messages))
             = [asc ''m1'']"
    using g by (simp add: f data_of_def reservation_data_of_def)
  have b: "map rd_confidence (fst (fetch_and_parse_reservations basic_latin True ex_messages))
       = [2026619832316723 / 2251799813685248]"
    using g by (simp add: f data_of_def reservation_data_of_def ex_body_classified ex_body_confidence)
  have c: "snd (fetch_and_parse_reservations basic_latin True ex_messages)
       = [(asc ''m1'', Booking, asc ''Tanaka'')]"
    using g by (simp add: f label_of_def ex_body_classified ex_body_customer)
  have d: "snd (fetch_and_parse_reservations basic_latin False ex_messages) = []"
    using g' by simp
  have e: "map_option ri_confidence (classify_email basic_latin ex_subject ex_low_body)
       = Some (flt (7 / 10))"
    by (simp add: ex_low_classified)
  from a b c d e show ?thesis by blast
qed

section \<open>The synthesized end time of the legacy parser\<close>

text \<open>
  A start time found by the legacy parser is two digits, a colon and two digits; for
  ASCII digits these are the two-digit formats of an hour and a minute below 100, which
  \<^verbatim>\<open>split(':')\<close> and \<^verbatim>\<open>int\<close> read back.
\<close>

lemma fmt0_two_digits:
  assumes "n < 100"
  shows "fmt0 2 n = [0x30 + n div 10, 0x30 + n mod 10]"
proof (cases "n < 10")
  case True
  then show ?thesis by (simp add: fmt0_def dec.simps)
next
  case False
  then have "n div 10 < 10" using assms by simp
  with False show ?thesis
    by (simp add: fmt0_def dec.simps[of n] dec.simps[of "n div 10"])
qed

lemma py_int_two_digits:
  assumes "ascii_digits U" and "n < 100"
  shows "py_int U (fmt0 2 n) = Inr n"
proof -
  have a: "n div 10 < 10" and b: "n mod 10 < 10" using assms(2) by simp_all
  from assms(1) a have da: "u_decimal U (0x30 + n div 10) = Some (n div 10)"
    unfolding ascii_digits_def by blast
  from assms(1) b have db: "u_decimal U (0x30 + n mod 10) = Some (n mod 10)"
    unfolding ascii_digits_def by blast
  show ?thesis
    by (simp add: fmt0_two_digits[OF assms(2)] py_int_def da db)
qed

lemma split_two_digits:
  assumes "h < 100" and "m < 100"
  shows "split_on 0x3A (fmt0 2 h @ asc '':'' @ fmt0 2 m) = [fmt0 2 h, fmt0 2 m]"
proof -
  have "h div 10 \<noteq> 10" "h mod 10 \<noteq> 10" "m div 10 \<noteq> 10" "m mod 10 \<noteq> 10"
    using assms by presburger+
  then show ?thesis
    by (simp add: fmt0_two_digits[OF assms(1)] fmt0_two_digits[OF assms(2)] asc_def)
qed

lemma synthesize_end_value:
  assumes "ascii_digits U" and "h < 100" and "m < 100"
  shows "synthesize_end U (fmt0 2 h @ asc '':'' @ fmt0 2 m) =
           Inr (fmt0 2 (if 30 \<le> m then h + 2 else h + 1) @ asc '':'' @
                fmt0 2 (if 30 \<le> m then m - 30 else m + 30))"
  by (simp add: synthesize_end_def split_two_digits[OF assms(2,3)] item_def bind_def Let_def
        py_int_two_digits[OF assms(1,2)] py_int_two_digits[OF assms(1,3)])

lemma parse_single_time:
  assumes "find_date y (legacy_date_patterns U) (ec_body e) = Some d"
    and "find_times (legacy_time_patterns U) (ec_body e) = [t]"
    and "synthesize_end U t = Inr end_time"
  shows "\<exists>r. parse_reservation_info U y (Some e) = Inr (Some r) \<and> p_date r = d \<and>
             p_start r = t \<and> p_end r = end_time"
  using assms by (simp add: parse_reservation_info_def Let_def bind_def)

text \<open>
  Claim C7, as amended. When parsing finds a date and a single time \<open>hh:mm\<close>, the end time
  is made of the hour \<open>hh + 1\<close> and the minute \<open>mm + 30\<close>, with a minute of 60 or more
  carried into the hour: counted in minutes it is exactly 90 minutes after the start, and
  its minute is below 60 when the start's is. The hour is not reduced modulo 24: the end
  is a time of the same day only for starts up to 22:29, and from 23:00 on its hour is 24
  or more (23:45 gives 25:15).
\<close>

theorem synthesized_end_time:
  assumes "ascii_digits U" and "h < 100" and "m < 100"
  shows "synthesize_end U (fmt0 2 h @ asc '':'' @ fmt0 2 m) =
           Inr (fmt0 2 (if 30 \<le> m then h + 2 else h + 1) @ asc '':'' @
                fmt0 2 (if 30 \<le> m then m - 30 else m + 30))
         \<and> 60 * (if 30 \<le> m then h + 2 else h + 1) + (if 30 \<le> m then m - 30 else m + 30)
             = 60 * h + m + 90
         \<and> (m < 60 \<longrightarrow> (if 30 \<le> m then m - 30 else m + 30) < 60)
         \<and> (h < 22 \<and> m < 60 \<longrightarrow> (if 30 \<le> m then h + 2 else h + 1) < 24)
         \<and> (23 \<le> h \<longrightarrow> 24 \<le> (if 30 \<le> m then h + 2 else h + 1))
         \<and> (find_date y (legacy_date_patterns U) (ec_body e) = Some d \<and>
             find_times (legacy_time_patterns U) (ec_body e) = [fmt0 2 h @ asc '':'' @ fmt0 2 m]
             \<longrightarrow> (\<exists>r. parse_reservation_info U y (Some e) = Inr (Some r) \<and> p_date r = d \<and>
                    p_start r = fmt0 2 h @ asc '':'' @ fmt0 2 m \<and>
                    p_end r = fmt0 2 (if 30 \<le> m then h + 2 else h + 1) @ asc '':'' @
                              fmt0 2 (if 30 \<le> m then m - 30 else m + 30)))"
proof -
  note v = synthesize_end_value[OF assms]
  have p: "find_date y (legacy_date_patterns U) (ec_body e) = Some d \<and>
             find_times (legacy_time_patterns U) (ec_body e) = [fmt0 2 h @ asc '':'' @ fmt0 2 m]
             \<longrightarrow> (\<exists>r. parse_reservation_info U y (Some e) = Inr (Some r) \<and> p_date r = d \<and>
                    p_start r = fmt0 2 h @ asc '':'' @ fmt0 2 m \<and>
                    p_end r = fmt0 2 (if 30 \<le> m then h + 2 else h + 1) @ asc '':'' @
                              fmt0 2 (if 30 \<le> m then m - 30 else m + 30))"
    using parse_single_time[OF _ _ v] by blast
  have a: "60 * (if 30 \<le> m then h + 2 else h + 1) + (if 30 \<le> m then m - 30 else m + 30)
             = 60 * h + m + 90" by simp
  have b: "m < 60 \<longrightarrow> (if 30 \<le> m then m - 30 else m + 30) < 60" by auto
  have c: "h < 22 \<and> m < 60 \<longrightarrow> (if 30 \<le> m then h + 2 else h + 1) < 24" by simp
  have d: "23 \<le> h \<longrightarrow> 24 \<le> (if 30 \<le> m then h + 2 else h + 1)" by simp
  from v a b c d p show ?thesis by blast
qed

lemma basic_latin_ascii_digits: "ascii_digits basic_latin"
  by (simp add: ascii_digits_def basic_latin_def)

lemma ex_legacy_date:
  "find_date 2025 (legacy_date_patterns basic_latin) (ec_body ex_legacy_mail) = Some (asc ''2025-11-02'')"
  by (simp add: ex_legacy_mail_def legacy_date_patterns_def slash_or_dash_def regex_defs
        number_defs asc_def upt_rec)

lemma ex_legacy_times:
  "find_times (legacy_time_patterns basic_latin) (ec_body ex_legacy_mail) = [asc ''23:45'']"
  by (simp add: find_times_def ex_legacy_mail_def legacy_time_patterns_def regex_defs
        number_defs asc_def upt_rec)

text \<open>
  Witness for C7: the legacy mail with the date 2025/11/02 and the single time 23:45, and
  the start 10:00, whose end 11:30 is a time of the same day.
\<close>

theorem synthesized_end_time_witness:
  "ascii_digits basic_latin
   \<and> fmt0 2 23 @ asc '':'' @ fmt0 2 45 = asc ''23:45''
   \<and> find_date 2025 (legacy_date_patterns basic_latin) (ec_body ex_legacy_mail)
       = Some (asc ''2025-11-02'')
   \<and> find_times (legacy_time_patterns basic_latin) (ec_body ex_legacy_mail) = [asc ''23:45'']
   \<and> synthesize_end basic_latin (asc ''23:45'') = Inr (asc ''25:15'')
   \<and> synthesize_end basic_latin (asc ''10:00'') = Inr (asc ''11:30'')
   \<and> (\<exists>r. parse_reservation_info basic_latin 2025 (Some ex_legacy_mail) = Inr (Some r) \<and>
          p_date r = asc ''2025-11-02'' \<and> p_start r = asc ''23:45'' \<and> p_end r = asc ''25:15'')"
proof -
  have f: "fmt0 2 23 @ asc '':'' @ fmt0 2 45 = asc ''23:45''"
    "fmt0 2 25 @ asc '':'' @ fmt0 2 15 = asc ''25:15''"
    "fmt0 2 10 @ asc '':'' @ fmt0 2 0 = asc ''10:00''"
    "fmt0 2 11 @ asc '':'' @ fmt0 2 30 = asc ''11:30''"
    by (simp_all add: fmt0_def dec.simps asc_def)
  have t: "find_times (legacy_time_patterns basic_latin) (ec_body ex_legacy_mail)
             = [fmt0 2 23 @ asc '':'' @ fmt0 2 45]"
    by (simp only: f ex_legacy_times)
  note c = synthesized_end_time[OF basic_latin_ascii_digits, of 23 45 2025 ex_legacy_mail
      "asc ''2025-11-02''"]
  note c' = synthesized_end_time[OF basic_latin_ascii_digits, of 10 0 2025 ex_legacy_mail
      "asc ''2025-11-02''"]
  have s1: "synthesize_end basic_latin (asc ''23:45'') = Inr (asc ''25:15'')"
    using c f by simp
  have s2: "synthesize_end basic_latin (asc ''10:00'') = Inr (asc ''11:30'')"
    using c' f by simp
  have p: "\<exists>r. parse_reservation_info basic_latin 2025 (Some ex_legacy_mail) = Inr (Some r) \<and>
          p_date r = asc ''2025-11-02'' \<and> p_start r = asc ''23:45'' \<and> p_end r = asc ''25:15''"
    using c ex_legacy_date t f by simp
  from basic_latin_ascii_digits f(1) ex_legacy_date ex_legacy_times s1 s2 p show ?thesis by blast
qed

text \<open>
  Counterexample to C7 as stated ("for start 23:45 the synthesized end is 01:15"): the
  parsed reservation of that mail ends at 25:15.
\<close>

theorem end_time_past_midnight_counterexample:
  "parse_reservation_info basic_latin 2025 (Some ex_legacy_mail) = Inr (Some ex_legacy_parsed)
   \<and> p_start ex_legacy_parsed = asc ''23:45''
   \<and> p_end ex_legacy_parsed = asc ''25:15''
   \<and> p_end ex_legacy_parsed \<noteq> asc ''01:15''"
proof -
  have s: "synthesize_end basic_latin (asc ''23:45'') = Inr (asc ''25:15'')"
    by (simp add: synthesize_end_def item_def bind_def Let_def py_int_def basic_latin_def asc_def
          fmt0_def dec.simps)
  have "parse_reservation_info basic_latin 2025 (Some ex_legacy_mail) = Inr (Some ex_legacy_parsed)"
    using ex_legacy_date ex_legacy_times s
    by (simp add: parse_reservation_info_def Let_def bind_def ex_legacy_parsed_def)
       (simp add: ex_legacy_mail_def legacy_cancel_words_def charter_words_def basic_latin_def
          text_defs)
  then show ?thesis by (simp add: ex_legacy_parsed_def asc_def)
qed

end
